theory Spec2Isabelle
  imports Main
begin


section \<open>Data model\<close>

text \<open>
  The two tables the handlers touch. Timestamps (\<open>NOW()\<close>) are natural numbers, dates
  (\<open>CURRENT_DATE\<close>, \<open>expiry_date\<close>) are day numbers, SQL \<open>NULL\<close> and a JavaScript
  \<open>undefined\<close> are \<open>None\<close>. A table is the list of its rows. The columns are the
  ones the statements of the handlers name (\<open>verified_at\<close>, \<open>verified_by\<close>,
  \<open>s3_key\<close>, \<open>expiration_notified_at\<close>); the status is the text the handlers
  write, which includes \<open>processing\<close>.
\<close>

type_synonym timestamp = nat
type_synonym date = int

text \<open>Columns written once by the upload handler's INSERT and never read by review or sweep.\<close>

record file_info =
  tenant_id :: "string option"
  document_category :: string
  s3_key :: string
  s3_bucket :: string
  file_name :: string
  file_size_bytes :: nat
  mime_type :: string

text \<open>A row of \<open>driver_documents\<close>.\<close>

record document =
  doc_id :: string
  driver_id :: string
  document_type :: string
  status :: string
  verified_at :: "timestamp option"
  verified_by :: "string option"
  rejection_reason :: "string option"
  doc_notes :: "string option"
  document_number :: "string option"
  issuing_authority :: "string option"
  issue_date :: "date option"
  expiry_date :: "date option"
  expiration_notified_at :: "timestamp option"
  created_at :: timestamp
  updated_at :: timestamp
  file_ref :: file_info

text \<open>A row of \<open>driver_profiles\<close> (the columns the handlers read or write).\<close>

record profile =
  user_id :: string
  documents_complete :: bool
  documents_verified_at :: "timestamp option"
  profile_status :: string
  license_document_id :: "string option"
  insurance_document_id :: "string option"
  registration_document_id :: "string option"
  inspection_document_id :: "string option"
  profile_photo_document_id :: "string option"
  profile_updated_at :: timestamp

record store =
  driver_documents :: "document list"
  driver_profiles :: "profile list"

section \<open>The database connection\<close>

text \<open>
  A connection holds the committed store, the working copy of an open transaction, and
  the number of round trips made so far. Whether the k-th round trip throws is decided by
  an oracle \<open>fails\<close>; a statement that throws has no effect on the store.
\<close>

datatype error = DbError nat | DocumentNotFound

record conn =
  committed :: store
  tx :: "store option"
  nqueries :: nat

type_synonym 'a db = "conn \<Rightarrow> (error + 'a) \<times> conn"

definition db_return :: "'a \<Rightarrow> 'a db" where
  "db_return x = (\<lambda>c. (Inr x, c))"

definition db_throw :: "error \<Rightarrow> 'a db" where
  "db_throw e = (\<lambda>c. (Inl e, c))"

text \<open>\<open>await m; k\<close>: an exception of \<open>m\<close> skips \<open>k\<close>.\<close>

definition db_bind :: "'a db \<Rightarrow> ('a \<Rightarrow> 'b db) \<Rightarrow> 'b db" where
  "db_bind m k = (\<lambda>c. case m c of (Inl e, c') \<Rightarrow> (Inl e, c') | (Inr x, c') \<Rightarrow> k x c')"

text \<open>\<open>try { m } catch (error) { h error }\<close>\<close>

definition db_catch :: "'a db \<Rightarrow> (error \<Rightarrow> 'a db) \<Rightarrow> 'a db" where
  "db_catch m h = (\<lambda>c. case m c of (Inl e, c') \<Rightarrow> h e c' | (Inr x, c') \<Rightarrow> (Inr x, c'))"

text \<open>
  \<open>db.query\<close> of a data statement: inside a transaction it works on the transaction's
  copy, outside it commits at once.
\<close>

definition db_query :: "(nat \<Rightarrow> bool) \<Rightarrow> (store \<Rightarrow> 'a \<times> store) \<Rightarrow> 'a db" where
  "db_query fails q = (\<lambda>c.
     let c' = c\<lparr>nqueries := Suc (nqueries c)\<rparr> in
     if fails (nqueries c) then (Inl (DbError (nqueries c)), c')
     else (case tx c of
             None \<Rightarrow> (case q (committed c) of (r, s') \<Rightarrow> (Inr r, c'\<lparr>committed := s'\<rparr>))
           | Some w \<Rightarrow> (case q w of (r, w') \<Rightarrow> (Inr r, c'\<lparr>tx := Some w'\<rparr>))))"

text \<open>\<open>db.query('BEGIN')\<close>, \<open>db.query('COMMIT')\<close>, \<open>db.query('ROLLBACK')\<close>\<close>

definition db_begin :: "(nat \<Rightarrow> bool) \<Rightarrow> unit db" where
  "db_begin fails = (\<lambda>c.
     let c' = c\<lparr>nqueries := Suc (nqueries c)\<rparr> in
     if fails (nqueries c) then (Inl (DbError (nqueries c)), c')
     else (case tx c of
             None \<Rightarrow> (Inr (), c'\<lparr>tx := Some (committed c)\<rparr>)
           | Some w \<Rightarrow> (Inr (), c')))"

definition db_commit :: "(nat \<Rightarrow> bool) \<Rightarrow> unit db" where
  "db_commit fails = (\<lambda>c.
     let c' = c\<lparr>nqueries := Suc (nqueries c)\<rparr> in
     if fails (nqueries c) then (Inl (DbError (nqueries c)), c')
     else (case tx c of
             None \<Rightarrow> (Inr (), c')
           | Some w \<Rightarrow> (Inr (), c'\<lparr>committed := w, tx := None\<rparr>)))"

definition db_rollback :: "(nat \<Rightarrow> bool) \<Rightarrow> unit db" where
  "db_rollback fails = (\<lambda>c.
     let c' = c\<lparr>nqueries := Suc (nqueries c)\<rparr> in
     if fails (nqueries c) then (Inl (DbError (nqueries c)), c')
     else (Inr (), c'\<lparr>tx := None\<rparr>))"

text \<open>\<open>getDbConnection\<close>: one round trip that may throw and touches no table.\<close>

definition getDbConnection :: "(nat \<Rightarrow> bool) \<Rightarrow> unit db" where
  "getDbConnection fails = (\<lambda>c.
     let c' = c\<lparr>nqueries := Suc (nqueries c)\<rparr> in
     if fails (nqueries c) then (Inl (DbError (nqueries c)), c') else (Inr (), c'))"

section \<open>JavaScript values\<close>

text \<open>A string-valued property: absent and the empty string are falsy.\<close>

definition truthy :: "string option \<Rightarrow> bool" where
  "truthy v = (case v of None \<Rightarrow> False | Some s \<Rightarrow> s \<noteq> [])"

text \<open>\<open>v || null\<close>\<close>

definition or_null :: "string option \<Rightarrow> string option" where
  "or_null v = (if truthy v then v else None)"

text \<open>SQL \<open>COALESCE(a, b)\<close>\<close>

definition coalesce :: "'a option \<Rightarrow> 'a option \<Rightarrow> 'a option" where
  "coalesce a b = (case a of None \<Rightarrow> b | Some x \<Rightarrow> Some x)"

section \<open>Document review handler\<close>

text \<open>
  The parsed request body of \<open>PUT /admin/documents/{documentId}/review\<close>. A date that
  is absent or falsy is \<open>None\<close>, so \<open>issueDate || null\<close> is the field itself.
\<close>

record review_body =
  body_status :: "string option"
  rejectionReason :: "string option"
  body_notes :: "string option"
  documentNumber :: "string option"
  issuingAuthority :: "string option"
  issueDate :: "date option"
  expiryDate :: "date option"

record review_event =
  documentId :: "string option"
  body :: review_body

record user =
  userId :: string
  isAdmin :: bool

text \<open>The \<open>reviewData\<close> object handed to \<open>updateDocumentStatus\<close>.\<close>

record reviewData =
  rd_status :: string
  rd_reviewerId :: string
  rd_rejectionReason :: "string option"
  rd_notes :: "string option"
  rd_documentNumber :: "string option"
  rd_issuingAuthority :: "string option"
  rd_issueDate :: "date option"
  rd_expiryDate :: "date option"

text \<open>The columns of the UPDATE's RETURNING clause.\<close>

record review_row =
  r_id :: string
  r_driver_id :: string
  r_document_type :: string
  r_status :: string
  r_verified_at :: "timestamp option"
  r_rejection_reason :: "string option"
  r_notes :: "string option"
  r_created_at :: timestamp
  r_updated_at :: timestamp

definition returning_review :: "document \<Rightarrow> review_row" where
  "returning_review d =
     \<lparr>r_id = doc_id d, r_driver_id = driver_id d, r_document_type = document_type d,
      r_status = status d, r_verified_at = verified_at d,
      r_rejection_reason = rejection_reason d, r_notes = doc_notes d,
      r_created_at = created_at d, r_updated_at = updated_at d\<rparr>"

text \<open>The SET clause of the UPDATE in \<open>updateDocumentStatus\<close>, on one row.\<close>

definition set_review :: "timestamp \<Rightarrow> reviewData \<Rightarrow> document \<Rightarrow> document" where
  "set_review now rd d =
     d\<lparr>status := rd_status rd,
       verified_at := (if rd_status rd \<in> {''approved'', ''rejected''} then Some now
                       else verified_at d),
       verified_by := Some (rd_reviewerId rd),
       rejection_reason := or_null (rd_rejectionReason rd),
       doc_notes := or_null (rd_notes rd),
       document_number := coalesce (or_null (rd_documentNumber rd)) (document_number d),
       issuing_authority := coalesce (or_null (rd_issuingAuthority rd)) (issuing_authority d),
       issue_date := coalesce (rd_issueDate rd) (issue_date d),
       expiry_date := coalesce (rd_expiryDate rd) (expiry_date d),
       updated_at := now\<rparr>"

text \<open>The whole statement: every row \<open>WHERE id = $9\<close> is updated and returned.\<close>

definition sql_update_document_status ::
  "timestamp \<Rightarrow> reviewData \<Rightarrow> string \<Rightarrow> store \<Rightarrow> review_row list \<times> store" where
  "sql_update_document_status now rd did s =
     (map returning_review (map (set_review now rd) (filter (\<lambda>d. doc_id d = did) (driver_documents s))),
      s\<lparr>driver_documents :=
           map (\<lambda>d. if doc_id d = did then set_review now rd d else d) (driver_documents s)\<rparr>)"

definition updateDocumentStatus ::
  "(nat \<Rightarrow> bool) \<Rightarrow> timestamp \<Rightarrow> string \<Rightarrow> reviewData \<Rightarrow> review_row db" where
  "updateDocumentStatus fails now did rd =
     db_bind (db_query fails (sql_update_document_status now rd did)) (\<lambda>rows.
       case rows of [] \<Rightarrow> db_throw DocumentNotFound | r # _ \<Rightarrow> db_return r)"

text \<open>\<open>updateDriverProfile\<close>: the column of \<open>driver_profiles\<close> that holds a document type.\<close>

definition columnMap :: "string \<Rightarrow> string option" where
  "columnMap documentType =
     (if documentType = ''license'' then Some ''license_document_id''
      else if documentType = ''insurance'' then Some ''insurance_document_id''
      else if documentType = ''registration'' then Some ''registration_document_id''
      else if documentType = ''inspection'' then Some ''inspection_document_id''
      else if documentType = ''profile_photo'' then Some ''profile_photo_document_id''
      else None)"

text \<open>\<open>SET ${column} = $1, updated_at = NOW()\<close> on one row.\<close>

definition set_profile_column :: "string \<Rightarrow> string \<Rightarrow> timestamp \<Rightarrow> profile \<Rightarrow> profile" where
  "set_profile_column column v now p =
     (if column = ''license_document_id''
        then p\<lparr>license_document_id := Some v, profile_updated_at := now\<rparr>
      else if column = ''insurance_document_id''
        then p\<lparr>insurance_document_id := Some v, profile_updated_at := now\<rparr>
      else if column = ''registration_document_id''
        then p\<lparr>registration_document_id := Some v, profile_updated_at := now\<rparr>
      else if column = ''inspection_document_id''
        then p\<lparr>inspection_document_id := Some v, profile_updated_at := now\<rparr>
      else if column = ''profile_photo_document_id''
        then p\<lparr>profile_photo_document_id := Some v, profile_updated_at := now\<rparr>
      else p\<lparr>profile_updated_at := now\<rparr>)"

definition sql_update_profile_column ::
  "timestamp \<Rightarrow> string \<Rightarrow> string \<Rightarrow> string \<Rightarrow> store \<Rightarrow> unit \<times> store" where
  "sql_update_profile_column now column did driverId s =
     ((), s\<lparr>driver_profiles :=
              map (\<lambda>p. if user_id p = driverId then set_profile_column column did now p else p)
                (driver_profiles s)\<rparr>)"

definition updateDriverProfile ::
  "(nat \<Rightarrow> bool) \<Rightarrow> timestamp \<Rightarrow> string \<Rightarrow> string \<Rightarrow> string \<Rightarrow> unit db" where
  "updateDriverProfile fails now driverId documentType did =
     (case columnMap documentType of
        None \<Rightarrow> db_return ()
      | Some column \<Rightarrow> db_query fails (sql_update_profile_column now column did driverId))"

text \<open>\<open>checkAllDocumentsApproved\<close>\<close>

definition requiredDocs :: "string list" where
  "requiredDocs = [''license'', ''insurance'', ''registration'', ''profile_photo'']"

text \<open>The SELECT: the types of the driver's approved documents among the required types.\<close>

definition sql_select_approved :: "string \<Rightarrow> store \<Rightarrow> string list \<times> store" where
  "sql_select_approved driverId s =
     (map document_type
        (filter (\<lambda>d. driver_id d = driverId \<and> document_type d \<in> set requiredDocs
                      \<and> status d = ''approved'') (driver_documents s)),
      s)"

text \<open>The UPDATE that marks the profile complete; RETURNING documents_complete,
  documents_verified_at, status.\<close>

definition set_complete :: "timestamp \<Rightarrow> profile \<Rightarrow> profile" where
  "set_complete now p =
     p\<lparr>documents_complete := True,
       documents_verified_at := Some now,
       profile_status := (if profile_status p = ''pending_documents'' then ''active''
                          else profile_status p),
       profile_updated_at := now\<rparr>"

type_synonym complete_row = "bool \<times> timestamp option \<times> string"

definition returning_complete :: "profile \<Rightarrow> complete_row" where
  "returning_complete p = (documents_complete p, documents_verified_at p, profile_status p)"

definition sql_update_profile_complete ::
  "timestamp \<Rightarrow> string \<Rightarrow> store \<Rightarrow> complete_row list \<times> store" where
  "sql_update_profile_complete now driverId s =
     (map returning_complete
        (map (set_complete now) (filter (\<lambda>p. user_id p = driverId) (driver_profiles s))),
      s\<lparr>driver_profiles :=
           map (\<lambda>p. if user_id p = driverId then set_complete now p else p) (driver_profiles s)\<rparr>)"

text \<open>\<open>rows[0]\<close>, which is \<open>undefined\<close> on an empty result.\<close>

definition first_row :: "'a list \<Rightarrow> 'a option" where
  "first_row rows = (case rows of [] \<Rightarrow> None | r # _ \<Rightarrow> Some r)"

record verification_status =
  allDocumentsApproved :: bool
  profileUpdated :: bool
  profileStatus :: "complete_row option"
  missingDocuments :: "string list option"

definition checkAllDocumentsApproved ::
  "(nat \<Rightarrow> bool) \<Rightarrow> timestamp \<Rightarrow> string \<Rightarrow> verification_status db" where
  "checkAllDocumentsApproved fails now driverId =
     db_bind (db_query fails (sql_select_approved driverId)) (\<lambda>approvedDocs.
       if list_all (\<lambda>doc. doc \<in> set approvedDocs) requiredDocs
       then db_bind (db_query fails (sql_update_profile_complete now driverId)) (\<lambda>rows.
              db_return \<lparr>allDocumentsApproved = True, profileUpdated = True,
                         profileStatus = first_row rows, missingDocuments = None\<rparr>)
       else db_return \<lparr>allDocumentsApproved = False, profileUpdated = False,
                       profileStatus = None,
                       missingDocuments =
                         Some (filter (\<lambda>doc. doc \<notin> set approvedDocs) requiredDocs)\<rparr>)"

text \<open>\<open>handleReviewDocument\<close>\<close>

datatype review_result =
  ErrorBody string
| Reviewed review_row "verification_status option"

record response =
  statusCode :: nat
  resp_body :: review_result

definition validStatuses :: "string list" where
  "validStatuses = [''approved'', ''rejected'', ''pending'', ''processing'']"

definition invalid_status :: string where
  "invalid_status = ''Invalid status. Must be one of: approved, rejected, pending, processing''"

text \<open>The object literal that \<open>handleReviewDocument\<close> hands to \<open>updateDocumentStatus\<close>.\<close>

definition review_data :: "string \<Rightarrow> review_body \<Rightarrow> user \<Rightarrow> reviewData" where
  "review_data st b usr =
     \<lparr>rd_status = st, rd_reviewerId = userId usr,
      rd_rejectionReason = rejectionReason b, rd_notes = body_notes b,
      rd_documentNumber = documentNumber b,
      rd_issuingAuthority = issuingAuthority b,
      rd_issueDate = issueDate b, rd_expiryDate = expiryDate b\<rparr>"

text \<open>The part of \<open>handleReviewDocument\<close> inside \<open>try\<close>.\<close>

definition review_try ::
  "(nat \<Rightarrow> bool) \<Rightarrow> timestamp \<Rightarrow> string \<Rightarrow> string \<Rightarrow> review_body \<Rightarrow> user \<Rightarrow> response db" where
  "review_try fails now did st b usr =
     db_bind (db_begin fails) (\<lambda>_.
     db_bind (updateDocumentStatus fails now did (review_data st b usr)) (\<lambda>document.
     if st = ''approved''
     then db_bind (updateDriverProfile fails now (r_driver_id document)
                     (r_document_type document) did) (\<lambda>_.
          db_bind (checkAllDocumentsApproved fails now (r_driver_id document))
            (\<lambda>verificationStatus.
          db_bind (db_commit fails) (\<lambda>_.
          db_return \<lparr>statusCode = 200,
                     resp_body = Reviewed document (Some verificationStatus)\<rparr>)))
     else db_bind (db_commit fails) (\<lambda>_.
          db_return \<lparr>statusCode = 200, resp_body = Reviewed document None\<rparr>)))"

definition handleReviewDocument ::
  "(nat \<Rightarrow> bool) \<Rightarrow> timestamp \<Rightarrow> review_event \<Rightarrow> user \<Rightarrow> response db" where
  "handleReviewDocument fails now event usr =
     (if \<not> isAdmin usr
      then db_return \<lparr>statusCode = 403,
                      resp_body = ErrorBody ''Forbidden: Admin access required''\<rparr>
      else (case documentId event of
        None \<Rightarrow> db_return \<lparr>statusCode = 400, resp_body = ErrorBody ''Missing documentId''\<rparr>
      | Some did \<Rightarrow>
        (if did = []
         then db_return \<lparr>statusCode = 400, resp_body = ErrorBody ''Missing documentId''\<rparr>
         else (case body_status (body event) of
           None \<Rightarrow> db_return \<lparr>statusCode = 400, resp_body = ErrorBody invalid_status\<rparr>
         | Some st \<Rightarrow>
           (if st = [] \<or> st \<notin> set validStatuses
            then db_return \<lparr>statusCode = 400, resp_body = ErrorBody invalid_status\<rparr>
            else if st = ''rejected'' \<and> \<not> truthy (rejectionReason (body event))
            then db_return \<lparr>statusCode = 400,
                   resp_body = ErrorBody ''rejectionReason is required when status is rejected''\<rparr>
            else db_bind (getDbConnection fails) (\<lambda>_.
                   db_catch (review_try fails now did st (body event) usr)
                     (\<lambda>error. db_bind (db_rollback fails) (\<lambda>_. db_throw error))))))))"

text \<open>\<open>exports.handler\<close> for a routed review request: an exception becomes a 500.\<close>

definition review_handler ::
  "(nat \<Rightarrow> bool) \<Rightarrow> timestamp \<Rightarrow> review_event \<Rightarrow> user \<Rightarrow> response db" where
  "review_handler fails now event usr =
     db_catch (handleReviewDocument fails now event usr)
       (\<lambda>error. db_return \<lparr>statusCode = 500, resp_body = ErrorBody ''Internal server error''\<rparr>)"

section \<open>Document upload handler: creation of a record\<close>

record documentData =
  dd_driverId :: string
  dd_tenantId :: "string option"
  dd_documentType :: string
  dd_documentCategory :: string
  dd_s3Key :: string
  dd_fileName :: string
  dd_fileSize :: nat
  dd_mimeType :: string

text \<open>
  The INSERT of \<open>createDocumentRecord\<close>. The id is the one the database generates and
  \<open>bucket\<close> is the configured \<open>DOCUMENTS_BUCKET\<close>; columns the statement does not name
  are NULL.
\<close>

definition sql_insert_document ::
  "string \<Rightarrow> string \<Rightarrow> timestamp \<Rightarrow> documentData \<Rightarrow> store \<Rightarrow> (string \<times> timestamp) \<times> store" where
  "sql_insert_document new_id bucket now dd s =
     ((new_id, now),
      s\<lparr>driver_documents := driver_documents s @
          [\<lparr>doc_id = new_id, driver_id = dd_driverId dd, document_type = dd_documentType dd,
            status = ''pending'', verified_at = None, verified_by = None,
            rejection_reason = None, doc_notes = None, document_number = None,
            issuing_authority = None, issue_date = None, expiry_date = None,
            expiration_notified_at = None, created_at = now, updated_at = now,
            file_ref = \<lparr>tenant_id = dd_tenantId dd,
                        document_category = dd_documentCategory dd,
                        s3_key = dd_s3Key dd, s3_bucket = bucket,
                        file_name = dd_fileName dd, file_size_bytes = dd_fileSize dd,
                        mime_type = dd_mimeType dd\<rparr>\<rparr>]\<rparr>)"

definition createDocumentRecord ::
  "(nat \<Rightarrow> bool) \<Rightarrow> string \<Rightarrow> string \<Rightarrow> timestamp \<Rightarrow> documentData \<Rightarrow> (string \<times> timestamp) db" where
  "createDocumentRecord fails new_id bucket now dd =
     db_query fails (sql_insert_document new_id bucket now dd)"

definition getDocumentCategory :: "string \<Rightarrow> string" where
  "getDocumentCategory documentType =
     (if documentType = ''license'' then ''identity''
      else if documentType = ''license_back'' then ''identity''
      else if documentType = ''profile_photo'' then ''identity''
      else if documentType = ''insurance'' then ''vehicle''
      else if documentType = ''registration'' then ''vehicle''
      else if documentType = ''inspection'' then ''compliance''
      else ''identity'')"

definition validTypes :: "string list" where
  "validTypes = [''license'', ''license_back'', ''insurance'', ''registration'',
                 ''inspection'', ''profile_photo'']"

definition invalid_type :: string where
  "invalid_type = ''Invalid documentType. Must be one of: license, license_back, insurance, registration, inspection, profile_photo''"

text \<open>The upload request after the snake_case and camelCase spellings are merged.\<close>

record upload_body =
  documentType :: "string option"
  fileName :: "string option"
  contentType :: "string option"
  fileSize :: "nat option"

record upload_user =
  up_userId :: string
  up_tenantId :: "string option"

datatype upload_result = UploadError string | Uploaded string string

text \<open>
  \<open>handleUploadRequest\<close> and the catch of its \<open>exports.handler\<close>. The storage key comes
  from \<open>generatePresignedUrl\<close>, which reads the clock and touches no table; it is the
  parameter \<open>s3Key\<close>.
\<close>

definition handleUploadRequest ::
  "(nat \<Rightarrow> bool) \<Rightarrow> string \<Rightarrow> string \<Rightarrow> string \<Rightarrow> timestamp \<Rightarrow> upload_body \<Rightarrow> upload_user
     \<Rightarrow> (nat \<times> upload_result) db" where
  "handleUploadRequest fails new_id bucket s3Key now b usr =
     (case (documentType b, fileName b, contentType b) of
        (Some dt, Some fn, Some ct) \<Rightarrow>
          (if dt = [] \<or> fn = [] \<or> ct = []
           then db_return (400, UploadError ''Missing required fields: document_type, file_name, content_type'')
           else if dt \<notin> set validTypes
           then db_return (400, UploadError invalid_type)
           else if (case fileSize b of None \<Rightarrow> False | Some n \<Rightarrow> n > 10 * 1024 * 1024)
           then db_return (400, UploadError ''File size exceeds 10MB limit'')
           else db_bind (getDbConnection fails) (\<lambda>_.
                db_bind (createDocumentRecord fails new_id bucket now
                           \<lparr>dd_driverId = up_userId usr, dd_tenantId = up_tenantId usr,
                            dd_documentType = dt,
                            dd_documentCategory = getDocumentCategory dt,
                            dd_s3Key = s3Key, dd_fileName = fn,
                            dd_fileSize = (case fileSize b of None \<Rightarrow> 0 | Some n \<Rightarrow> n),
                            dd_mimeType = ct\<rparr>) (\<lambda>document.
                db_return (200, Uploaded (fst document) s3Key))))
      | _ \<Rightarrow> db_return (400, UploadError ''Missing required fields: document_type, file_name, content_type''))"

definition upload_handler ::
  "(nat \<Rightarrow> bool) \<Rightarrow> string \<Rightarrow> string \<Rightarrow> string \<Rightarrow> timestamp \<Rightarrow> upload_body \<Rightarrow> upload_user
     \<Rightarrow> (nat \<times> upload_result) db" where
  "upload_handler fails new_id bucket s3Key now b usr =
     db_catch (handleUploadRequest fails new_id bucket s3Key now b usr)
       (\<lambda>error. db_return (500, UploadError ''Internal server error''))"

section \<open>Document expiry check (the scheduled sweep)\<close>

text \<open>\<open>markExpiredDocuments\<close>: the WHERE clause, the statement, the function.\<close>

definition past_expiry :: "date \<Rightarrow> document \<Rightarrow> bool" where
  "past_expiry today d =
     (status d = ''approved'' \<and>
      (case expiry_date d of None \<Rightarrow> False | Some e \<Rightarrow> e < today))"

type_synonym expired_row = "string \<times> string \<times> string \<times> date option"

definition returning_expired :: "document \<Rightarrow> expired_row" where
  "returning_expired d = (doc_id d, driver_id d, document_type d, expiry_date d)"

definition set_expired :: "timestamp \<Rightarrow> document \<Rightarrow> document" where
  "set_expired now d = d\<lparr>status := ''expired'', updated_at := now\<rparr>"

definition sql_mark_expired :: "date \<Rightarrow> timestamp \<Rightarrow> store \<Rightarrow> expired_row list \<times> store" where
  "sql_mark_expired today now s =
     (map returning_expired (map (set_expired now) (filter (past_expiry today) (driver_documents s))),
      s\<lparr>driver_documents :=
           map (\<lambda>d. if past_expiry today d then set_expired now d else d) (driver_documents s)\<rparr>)"

definition markExpiredDocuments :: "(nat \<Rightarrow> bool) \<Rightarrow> date \<Rightarrow> timestamp \<Rightarrow> expired_row list db" where
  "markExpiredDocuments fails today now = db_query fails (sql_mark_expired today now)"

text \<open>\<open>[...new Set(xs)]\<close>: the first occurrence of each element, in order.\<close>

fun set_order :: "'a list \<Rightarrow> 'a list \<Rightarrow> 'a list" where
  "set_order seen [] = rev seen"
| "set_order seen (x # xs) = (if x \<in> set seen then set_order seen xs else set_order (x # seen) xs)"

definition new_Set :: "'a list \<Rightarrow> 'a list" where
  "new_Set xs = set_order [] xs"

text \<open>\<open>updateDriverProfilesForExpiredDocs\<close>: the UPDATE that marks a profile incomplete,
  RETURNING user_id, documents_complete, status.\<close>

definition set_incomplete :: "timestamp \<Rightarrow> profile \<Rightarrow> profile" where
  "set_incomplete now p =
     p\<lparr>documents_complete := False,
       profile_status := (if profile_status p = ''active'' then ''pending_documents''
                          else profile_status p),
       profile_updated_at := now\<rparr>"

type_synonym incomplete_row = "string \<times> bool \<times> string"

definition returning_incomplete :: "profile \<Rightarrow> incomplete_row" where
  "returning_incomplete p = (user_id p, documents_complete p, profile_status p)"

definition sql_update_profile_incomplete ::
  "timestamp \<Rightarrow> string \<Rightarrow> store \<Rightarrow> incomplete_row list \<times> store" where
  "sql_update_profile_incomplete now driverId s =
     (map returning_incomplete
        (map (set_incomplete now) (filter (\<lambda>p. user_id p = driverId) (driver_profiles s))),
      s\<lparr>driver_profiles :=
           map (\<lambda>p. if user_id p = driverId then set_incomplete now p else p) (driver_profiles s)\<rparr>)"

text \<open>
  The \<open>for (const driverId of driverIds)\<close> loop. Its check query selects the same rows as
  the one of \<open>checkAllDocumentsApproved\<close>. \<open>results.push(updateResult.rows[0])\<close> pushes
  \<open>undefined\<close> when the driver has no profile row.
\<close>

fun profiles_loop ::
  "(nat \<Rightarrow> bool) \<Rightarrow> timestamp \<Rightarrow> string list \<Rightarrow> incomplete_row option list
     \<Rightarrow> incomplete_row option list db" where
  "profiles_loop fails now [] results = db_return results"
| "profiles_loop fails now (driverId # rest) results =
     db_bind (db_query fails (sql_select_approved driverId)) (\<lambda>approvedDocs.
       if \<not> list_all (\<lambda>doc. doc \<in> set approvedDocs) requiredDocs
       then db_bind (db_query fails (sql_update_profile_incomplete now driverId)) (\<lambda>rows.
              profiles_loop fails now rest (results @ [first_row rows]))
       else profiles_loop fails now rest results)"

definition updateDriverProfilesForExpiredDocs ::
  "(nat \<Rightarrow> bool) \<Rightarrow> timestamp \<Rightarrow> expired_row list \<Rightarrow> incomplete_row option list db" where
  "updateDriverProfilesForExpiredDocs fails now expiredDocs =
     (if expiredDocs = [] then db_return []
      else profiles_loop fails now (new_Set (map (\<lambda>d. fst (snd d)) expiredDocs)) [])"

text \<open>\<open>findExpiringDocuments\<close>\<close>

record expiring_row =
  e_id :: string
  e_driver_id :: string
  e_document_type :: string
  e_file_name :: string
  e_expiry_date :: "date option"
  e_expiration_notified_at :: "timestamp option"
  e_days_until_expiry :: int

definition expiring_soon :: "date \<Rightarrow> int \<Rightarrow> document \<Rightarrow> bool" where
  "expiring_soon today daysAhead d =
     (status d = ''approved'' \<and>
      (case expiry_date d of None \<Rightarrow> False | Some e \<Rightarrow> today \<le> e \<and> e \<le> today + daysAhead) \<and>
      expiration_notified_at d = None)"

definition expiry_key :: "document \<Rightarrow> date" where
  "expiry_key d = (case expiry_date d of None \<Rightarrow> 0 | Some e \<Rightarrow> e)"

definition select_expiring :: "date \<Rightarrow> document \<Rightarrow> expiring_row" where
  "select_expiring today d =
     \<lparr>e_id = doc_id d, e_driver_id = driver_id d, e_document_type = document_type d,
      e_file_name = file_name (file_ref d), e_expiry_date = expiry_date d,
      e_expiration_notified_at = expiration_notified_at d,
      e_days_until_expiry = expiry_key d - today\<rparr>"

definition sql_find_expiring :: "date \<Rightarrow> int \<Rightarrow> store \<Rightarrow> expiring_row list \<times> store" where
  "sql_find_expiring today daysAhead s =
     (map (select_expiring today)
        (sort_key expiry_key (filter (expiring_soon today daysAhead) (driver_documents s))),
      s)"

definition findExpiringDocuments :: "(nat \<Rightarrow> bool) \<Rightarrow> date \<Rightarrow> int \<Rightarrow> expiring_row list db" where
  "findExpiringDocuments fails today daysAhead = db_query fails (sql_find_expiring today daysAhead)"

text \<open>\<open>markNotificationSent\<close>\<close>

definition sql_mark_notified :: "timestamp \<Rightarrow> string list \<Rightarrow> store \<Rightarrow> unit \<times> store" where
  "sql_mark_notified now documentIds s =
     ((), s\<lparr>driver_documents :=
              map (\<lambda>d. if doc_id d \<in> set documentIds
                        then d\<lparr>expiration_notified_at := Some now, updated_at := now\<rparr> else d)
                (driver_documents s)\<rparr>)"

definition markNotificationSent :: "(nat \<Rightarrow> bool) \<Rightarrow> timestamp \<Rightarrow> string list \<Rightarrow> unit db" where
  "markNotificationSent fails now documentIds =
     (if documentIds = [] then db_return ()
      else db_query fails (sql_mark_notified now documentIds))"

text \<open>\<open>sendExpirationNotifications\<close> only writes to the log.\<close>

definition sendExpirationNotifications :: "expiring_row list \<Rightarrow> nat" where
  "sendExpirationNotifications expiringDocs = length expiringDocs"

text \<open>
  \<open>exports.handler\<close> of the expiry check. The \<open>results\<close> object is updated step by step, and
  the catch block returns it as it stands when the exception arrives.
\<close>

record sweep_results =
  expiringDocuments :: nat
  expiredDocuments :: nat
  notificationsSent :: nat
  profilesUpdated :: nat
  errors :: "error list"

record sweep_response =
  sw_statusCode :: nat
  sw_results :: sweep_results

definition sweep_failed :: "error \<Rightarrow> sweep_results \<Rightarrow> sweep_response" where
  "sweep_failed e results = \<lparr>sw_statusCode = 500, sw_results = results\<lparr>errors := errors results @ [e]\<rparr>\<rparr>"

definition sweep_completed :: "sweep_results \<Rightarrow> sweep_response" where
  "sweep_completed results = \<lparr>sw_statusCode = 200, sw_results = results\<rparr>"

definition sweep_step4 ::
  "(nat \<Rightarrow> bool) \<Rightarrow> timestamp \<Rightarrow> sweep_results \<Rightarrow> expiring_row list \<Rightarrow> conn \<Rightarrow> sweep_response \<times> conn" where
  "sweep_step4 fails now results expiringDocs c =
     (if expiringDocs \<noteq> []
      then (let results' = results\<lparr>notificationsSent := sendExpirationNotifications expiringDocs\<rparr>
            in case markNotificationSent fails now (map e_id expiringDocs) c of
                 (Inl e, c') \<Rightarrow> (sweep_failed e results', c')
               | (Inr _, c') \<Rightarrow> (sweep_completed results', c'))
      else (sweep_completed results, c))"

definition sweep_step3 ::
  "(nat \<Rightarrow> bool) \<Rightarrow> date \<Rightarrow> timestamp \<Rightarrow> sweep_results \<Rightarrow> conn \<Rightarrow> sweep_response \<times> conn" where
  "sweep_step3 fails today now results c =
     (case findExpiringDocuments fails today 30 c of
        (Inl e, c') \<Rightarrow> (sweep_failed e results, c')
      | (Inr expiringDocs, c') \<Rightarrow>
          sweep_step4 fails now (results\<lparr>expiringDocuments := length expiringDocs\<rparr>)
            expiringDocs c')"

definition sweep_step2 ::
  "(nat \<Rightarrow> bool) \<Rightarrow> date \<Rightarrow> timestamp \<Rightarrow> sweep_results \<Rightarrow> expired_row list \<Rightarrow> conn
     \<Rightarrow> sweep_response \<times> conn" where
  "sweep_step2 fails today now results expiredDocs c =
     (if expiredDocs \<noteq> []
      then (case updateDriverProfilesForExpiredDocs fails now expiredDocs c of
              (Inl e, c') \<Rightarrow> (sweep_failed e results, c')
            | (Inr updatedProfiles, c') \<Rightarrow>
                sweep_step3 fails today now
                  (results\<lparr>profilesUpdated := length updatedProfiles\<rparr>) c')
      else sweep_step3 fails today now results c)"

definition sweep_handler ::
  "(nat \<Rightarrow> bool) \<Rightarrow> date \<Rightarrow> timestamp \<Rightarrow> conn \<Rightarrow> sweep_response \<times> conn" where
  "sweep_handler fails today now c =
     (let results = \<lparr>expiringDocuments = 0, expiredDocuments = 0, notificationsSent = 0,
                     profilesUpdated = 0, errors = []\<rparr>
      in case getDbConnection fails c of
           (Inl e, c') \<Rightarrow> (sweep_failed e results, c')
         | (Inr _, c') \<Rightarrow>
             (case markExpiredDocuments fails today now c' of
                (Inl e, c'') \<Rightarrow> (sweep_failed e results, c'')
              | (Inr expiredDocs, c'') \<Rightarrow>
                  sweep_step2 fails today now
                    (results\<lparr>expiredDocuments := length expiredDocs\<rparr>) expiredDocs c''))"

section \<open>Auxiliary notions for the statements\<close>

text \<open>The oracle under which no round trip throws.\<close>

definition no_faults :: "nat \<Rightarrow> bool" where
  "no_faults k = False"

text \<open>The store a statement issued on the connection reads and writes.\<close>

definition visible :: "conn \<Rightarrow> store" where
  "visible c = (case tx c of None \<Rightarrow> committed c | Some w \<Rightarrow> w)"

text \<open>The oracle under which exactly round trip \<open>n\<close> throws.\<close>

definition fail_at :: "nat \<Rightarrow> nat \<Rightarrow> bool" where
  "fail_at n k = (k = n)"

text \<open>An operation that, run inside a transaction, stays inside it and commits nothing.\<close>

definition tx_safe :: "(conn \<Rightarrow> 'r \<times> conn) \<Rightarrow> bool" where
  "tx_safe m = (\<forall>c. tx c \<noteq> None \<longrightarrow> committed (snd (m c)) = committed c \<and> tx (snd (m c)) \<noteq> None)"

text \<open>The requests that pass every check of \<open>handleReviewDocument\<close>.\<close>

definition review_valid :: "review_event \<Rightarrow> user \<Rightarrow> bool" where
  "review_valid event usr =
     (isAdmin usr \<and>
      (case documentId event of None \<Rightarrow> False | Some did \<Rightarrow> did \<noteq> []) \<and>
      (case body_status (body event) of None \<Rightarrow> False
       | Some st \<Rightarrow> st \<in> set validStatuses \<and>
           (st = ''rejected'' \<longrightarrow> truthy (rejectionReason (body event)))))"

text \<open>
  A property of stores holds on a connection when it holds of the committed store and of
  the working copy of an open transaction; an operation preserves it when it leads from
  such connections to such connections.
\<close>

definition conn_ok :: "(store \<Rightarrow> bool) \<Rightarrow> conn \<Rightarrow> bool" where
  "conn_ok P c = (P (committed c) \<and> (\<forall>w. tx c = Some w \<longrightarrow> P w))"

definition preserves :: "(store \<Rightarrow> bool) \<Rightarrow> (conn \<Rightarrow> 'r \<times> conn) \<Rightarrow> bool" where
  "preserves P m = (\<forall>c. conn_ok P c \<longrightarrow> conn_ok P (snd (m c)))"

text \<open>The two directions of the rejection-reason invariant.\<close>

definition rejected_has_reason :: "store \<Rightarrow> bool" where
  "rejected_has_reason s =
     (\<forall>d \<in> set (driver_documents s). status d = ''rejected'' \<longrightarrow> rejection_reason d \<noteq> None)"

definition reason_iff_rejected :: "store \<Rightarrow> bool" where
  "reason_iff_rejected s =
     (\<forall>d \<in> set (driver_documents s). (rejection_reason d \<noteq> None) = (status d = ''rejected''))"

text \<open>A review request that supplies a rejection reason only together with status rejected.\<close>

definition reason_only_when_rejected :: "review_event \<Rightarrow> bool" where
  "reason_only_when_rejected event =
     (truthy (rejectionReason (body event)) \<longrightarrow> body_status (body event) = Some ''rejected'')"

definition any_review :: "review_event \<Rightarrow> bool" where
  "any_review event = True"

text \<open>
  The connections reachable from an empty documents table through the three public
  handlers, with any arguments and any faults; \<open>allowed\<close> restricts the review requests.
\<close>

inductive reachable :: "(review_event \<Rightarrow> bool) \<Rightarrow> conn \<Rightarrow> bool" for allowed where
  initial: "reachable allowed \<lparr>committed = \<lparr>driver_documents = [], driver_profiles = ps\<rparr>, tx = None, nqueries = 0\<rparr>"
| upload: "reachable allowed c \<Longrightarrow>
     reachable allowed (snd (upload_handler fails new_id bucket s3Key now b usr c))"
| review: "reachable allowed c \<Longrightarrow> allowed event \<Longrightarrow>
     reachable allowed (snd (review_handler fails now event usr c))"
| sweep: "reachable allowed c \<Longrightarrow> reachable allowed (snd (sweep_handler fails today now c))"

text \<open>How a sweep may change a document: only from approved, and only to expired.\<close>

definition sweep_step :: "document \<Rightarrow> document \<Rightarrow> bool" where
  "sweep_step d d' =
     (doc_id d' = doc_id d \<and> (status d \<noteq> ''approved'' \<longrightarrow> status d' = status d) \<and>
      (status d' = status d \<or> status d' = ''expired''))"

text \<open>What a recomputation that finds the set incomplete leaves of a profile row.\<close>

definition same_aggregate :: "profile \<Rightarrow> profile \<Rightarrow> bool" where
  "same_aggregate p p' =
     (user_id p' = user_id p \<and> documents_complete p' = documents_complete p \<and>
      documents_verified_at p' = documents_verified_at p \<and> profile_status p' = profile_status p)"

text \<open>The aggregate verdict of a profile row: completeness and profile status.\<close>

definition same_verdict :: "profile \<Rightarrow> profile \<Rightarrow> bool" where
  "same_verdict p p' =
     (user_id p' = user_id p \<and> documents_complete p' = documents_complete p \<and>
      profile_status p' = profile_status p)"








section \<open>Concrete inputs\<close>

definition ex_conn0 :: conn where
  "ex_conn0 = \<lparr>committed = \<lparr>driver_documents = [], driver_profiles = []\<rparr>, tx = None, nqueries = 0\<rparr>"

definition ex_admin :: user where
  "ex_admin = \<lparr>userId = ''admin1'', isAdmin = True\<rparr>"

definition ex_upload :: upload_body where
  "ex_upload = \<lparr>documentType = Some ''license'', fileName = Some ''a.pdf'',
                 contentType = Some ''application/pdf'', fileSize = None\<rparr>"

definition ex_driver :: upload_user where
  "ex_driver = \<lparr>up_userId = ''u1'', up_tenantId = None\<rparr>"

text \<open>Driver u1 has uploaded a license, document d1.\<close>

definition ex_conn1 :: conn where
  "ex_conn1 = snd (upload_handler no_faults ''d1'' ''bucket'' ''key1'' 1 ex_upload ex_driver ex_conn0)"

definition ex_review :: "string \<Rightarrow> string option \<Rightarrow> string option \<Rightarrow> review_event" where
  "ex_review st reason note =
     \<lparr>documentId = Some ''d1'',
      body = \<lparr>body_status = Some st, rejectionReason = reason, body_notes = note,
               documentNumber = None, issuingAuthority = None, issueDate = None,
               expiryDate = None\<rparr>\<rparr>"

text \<open>d1 is rejected with a reason and a note.\<close>

definition ex_rejected :: conn where
  "ex_rejected =
     snd (review_handler no_faults 2 (ex_review ''rejected'' (Some ''blurry'') (Some ''retake''))
            ex_admin ex_conn1)"

text \<open>d1 is set to pending, with a rejection reason in the request.\<close>

definition ex_pending_with_reason :: conn where
  "ex_pending_with_reason =
     snd (review_handler no_faults 2 (ex_review ''pending'' (Some ''blurry'') None) ex_admin ex_conn1)"

text \<open>d1 is approved by admin1 at time 2, with expiry date 10.\<close>

definition ex_approve_until :: "date \<Rightarrow> review_event" where
  "ex_approve_until e =
     \<lparr>documentId = Some ''d1'',
      body = \<lparr>body_status = Some ''approved'', rejectionReason = None, body_notes = None,
               documentNumber = None, issuingAuthority = None, issueDate = None,
               expiryDate = Some e\<rparr>\<rparr>"

definition ex_approved :: conn where
  "ex_approved = snd (review_handler no_faults 2 (ex_approve_until 10) ex_admin ex_conn1)"

text \<open>The sweep of day 20 finds d1 past its expiry date.\<close>

definition ex_expired :: conn where
  "ex_expired = snd (sweep_handler no_faults 20 3 ex_approved)"

text \<open>A second administrator.\<close>

definition ex_admin2 :: user where
  "ex_admin2 = \<lparr>userId = ''admin2'', isAdmin = True\<rparr>"

text \<open>A document row and a profile row with the columns of interest; the rest is NULL.\<close>

definition ex_doc :: "string \<Rightarrow> string \<Rightarrow> string \<Rightarrow> string \<Rightarrow> date option \<Rightarrow> document" where
  "ex_doc did drv dtype st expiry =
     \<lparr>doc_id = did, driver_id = drv, document_type = dtype, status = st,
      verified_at = None, verified_by = None, rejection_reason = None, doc_notes = None,
      document_number = None, issuing_authority = None, issue_date = None,
      expiry_date = expiry, expiration_notified_at = None, created_at = 1, updated_at = 1,
      file_ref = \<lparr>tenant_id = None, document_category = ''identity'', s3_key = ''key'',
                  s3_bucket = ''bucket'', file_name = ''a.pdf'', file_size_bytes = 0,
                  mime_type = ''application/pdf''\<rparr>\<rparr>"

definition ex_profile :: "string \<Rightarrow> bool \<Rightarrow> timestamp option \<Rightarrow> string \<Rightarrow> profile" where
  "ex_profile uid complete verified st =
     \<lparr>user_id = uid, documents_complete = complete, documents_verified_at = verified,
      profile_status = st, license_document_id = None, insurance_document_id = None,
      registration_document_id = None, inspection_document_id = None,
      profile_photo_document_id = None, profile_updated_at = 1\<rparr>"

text \<open>
  Driver u1 is stored as complete and active, but the license d0 is pending again; the
  inspection d1 awaits review.
\<close>

definition ex_stale :: conn where
  "ex_stale =
     \<lparr>committed =
        \<lparr>driver_documents = [ex_doc ''d0'' ''u1'' ''license'' ''pending'' None,
                             ex_doc ''d1'' ''u1'' ''inspection'' ''pending'' None],
         driver_profiles = [ex_profile ''u1'' True (Some 1) ''active'']\<rparr>,
      tx = None, nqueries = 0\<rparr>"

text \<open>Driver u1 has the four required documents approved; the profile is not yet complete.\<close>

definition ex_all_approved :: conn where
  "ex_all_approved =
     \<lparr>committed =
        \<lparr>driver_documents = [ex_doc ''d1'' ''u1'' ''license'' ''approved'' None,
                             ex_doc ''d2'' ''u1'' ''insurance'' ''approved'' None,
                             ex_doc ''d3'' ''u1'' ''registration'' ''approved'' None,
                             ex_doc ''d4'' ''u1'' ''profile_photo'' ''approved'' None],
         driver_profiles = [ex_profile ''u1'' False None ''pending_documents'']\<rparr>,
      tx = None, nqueries = 0\<rparr>"





text \<open>
  A second upload of the same driver, a review of that second document, and the connection
  after an approval of d1 whose recomputation query and whose ROLLBACK both throw; for
  comparison, the connection after the same approval when only the recomputation query throws.
\<close>

definition fails_in :: "nat list \<Rightarrow> nat \<Rightarrow> bool" where
  "fails_in ns k = (k \<in> set ns)"

text \<open>Driver u1 has uploaded a license d1 and an insurance d2.\<close>

definition ex_upload2 :: upload_body where
  "ex_upload2 = \<lparr>documentType = Some ''insurance'', fileName = Some ''b.pdf'',
                  contentType = Some ''application/pdf'', fileSize = None\<rparr>"

definition ex_two_docs :: conn where
  "ex_two_docs = snd (upload_handler no_faults ''d2'' ''bucket'' ''key2'' 2 ex_upload2 ex_driver ex_conn1)"

definition ex_review_d2 :: "string \<Rightarrow> review_event" where
  "ex_review_d2 st =
     \<lparr>documentId = Some ''d2'',
      body = \<lparr>body_status = Some st, rejectionReason = None, body_notes = None,
               documentNumber = None, issuingAuthority = None, issueDate = None,
               expiryDate = None\<rparr>\<rparr>"

text \<open>
  The approval of d1 at time 3 in which the recomputation's SELECT (round trip 8) throws:
  once with a ROLLBACK that throws too (round trip 9), once with a ROLLBACK that works.
\<close>

definition ex_hung :: conn where
  "ex_hung = snd (review_handler (fails_in [8, 9]) 3 (ex_review ''approved'' None None) ex_admin ex_two_docs)"

definition ex_rolled_back :: conn where
  "ex_rolled_back = snd (review_handler (fail_at 8) 3 (ex_review ''approved'' None None) ex_admin ex_two_docs)"


section \<open>Preservation of store properties\<close>

lemma preserves_return: "preserves P (db_return x)"
  by (simp add: preserves_def db_return_def)

lemma preserves_throw: "preserves P (db_throw e)"
  by (simp add: preserves_def db_throw_def)

lemma preserves_connect: "preserves P (getDbConnection fails)"
  by (simp add: preserves_def getDbConnection_def conn_ok_def Let_def)

lemma preserves_begin: "preserves P (db_begin fails)"
  by (auto simp: preserves_def db_begin_def conn_ok_def Let_def split: option.splits)

lemma preserves_commit: "preserves P (db_commit fails)"
  by (auto simp: preserves_def db_commit_def conn_ok_def Let_def split: option.splits)

lemma preserves_rollback: "preserves P (db_rollback fails)"
  by (auto simp: preserves_def db_rollback_def conn_ok_def Let_def split: option.splits)

lemma preserves_query:
  assumes "\<And>s. P s \<Longrightarrow> P (snd (q s))"
  shows "preserves P (db_query fails q)"
  using assms
  by (auto simp: preserves_def db_query_def conn_ok_def Let_def split: option.splits prod.splits)
     (metis snd_conv)+

lemma preserves_bind:
  assumes "preserves P m" and "\<And>x. preserves P (k x)"
  shows "preserves P (db_bind m k)"
proof (unfold preserves_def, intro allI impI)
  fix c assume ok: "conn_ok P c"
  obtain r c' where mc: "m c = (r, c')" by (cases "m c")
  with assms(1) ok have ok': "conn_ok P c'" by (auto simp: preserves_def)
  show "conn_ok P (snd (db_bind m k c))"
  proof (cases r)
    case (Inl e)
    with mc ok' show ?thesis by (simp add: db_bind_def)
  next
    case (Inr x)
    with mc ok' assms(2)[of x] show ?thesis by (simp add: db_bind_def preserves_def)
  qed
qed

lemma preserves_catch:
  assumes "preserves P m" and "\<And>e. preserves P (h e)"
  shows "preserves P (db_catch m h)"
proof (unfold preserves_def, intro allI impI)
  fix c assume ok: "conn_ok P c"
  obtain r c' where mc: "m c = (r, c')" by (cases "m c")
  with assms(1) ok have ok': "conn_ok P c'" by (auto simp: preserves_def)
  show "conn_ok P (snd (db_catch m h c))"
  proof (cases r)
    case (Inl e)
    with mc ok' assms(2)[of e] show ?thesis by (simp add: db_catch_def preserves_def)
  next
    case (Inr x)
    with mc ok' show ?thesis by (simp add: db_catch_def)
  qed
qed

lemma or_null_truthy: "truthy v \<Longrightarrow> or_null v = v \<and> (\<exists>y. v = Some y)"
  by (simp add: or_null_def truthy_def split: option.splits)

lemma or_null_falsy: "\<not> truthy v \<Longrightarrow> or_null v = None"
  by (simp add: or_null_def)

lemma set_review_has_reason:
  "(rd_status rd = ''rejected'' \<longrightarrow> truthy (rd_rejectionReason rd)) \<Longrightarrow>
   rejected_has_reason s \<Longrightarrow> rejected_has_reason (snd (sql_update_document_status now rd did s))"
  by (auto simp: rejected_has_reason_def sql_update_document_status_def set_review_def
      dest: or_null_truthy)

lemma set_review_iff:
  "(rd_status rd = ''rejected'') = truthy (rd_rejectionReason rd) \<Longrightarrow>
   reason_iff_rejected s \<Longrightarrow> reason_iff_rejected (snd (sql_update_document_status now rd did s))"
  by (auto simp: reason_iff_rejected_def sql_update_document_status_def set_review_def or_null_falsy
      dest: or_null_truthy)

lemma docs_profile_column[simp]:
  "driver_documents (snd (sql_update_profile_column now column did driverId s)) = driver_documents s"
  by (simp add: sql_update_profile_column_def)

lemma docs_select_approved[simp]: "snd (sql_select_approved driverId s) = s"
  by (simp add: sql_select_approved_def)

lemma docs_profile_complete[simp]:
  "driver_documents (snd (sql_update_profile_complete now driverId s)) = driver_documents s"
  by (simp add: sql_update_profile_complete_def)

lemma docs_profile_incomplete[simp]:
  "driver_documents (snd (sql_update_profile_incomplete now driverId s)) = driver_documents s"
  by (simp add: sql_update_profile_incomplete_def)

lemma snd_find_expiring[simp]: "snd (sql_find_expiring today n s) = s"
  by (simp add: sql_find_expiring_def)

lemma preserves_updateDriverProfile:
  assumes frame: "\<And>s s'. driver_documents s' = driver_documents s \<Longrightarrow> P s \<Longrightarrow> P s'"
  shows "preserves P (updateDriverProfile fails now driverId dtype did)"
proof (cases "columnMap dtype")
  case None
  then show ?thesis by (simp add: updateDriverProfile_def preserves_return)
next
  case (Some column)
  have "P (snd (sql_update_profile_column now column did driverId s))" if "P s" for s
    using frame[of "snd (sql_update_profile_column now column did driverId s)" s] that by simp
  then have "preserves P (db_query fails (sql_update_profile_column now column did driverId))"
    by (rule preserves_query[where P=P])
  with Some show ?thesis by (simp add: updateDriverProfile_def)
qed

lemma preserves_check:
  assumes frame: "\<And>s s'. driver_documents s' = driver_documents s \<Longrightarrow> P s \<Longrightarrow> P s'"
  shows "preserves P (checkAllDocumentsApproved fails now driverId)"
proof -
  have sel: "preserves P (db_query fails (sql_select_approved driverId))"
    by (rule preserves_query[where P=P]) simp
  have "P (snd (sql_update_profile_complete now driverId s))" if "P s" for s
    using frame[of "snd (sql_update_profile_complete now driverId s)" s] that by simp
  then have upd: "preserves P (db_query fails (sql_update_profile_complete now driverId))"
    by (rule preserves_query[where P=P])
  show ?thesis
    unfolding checkAllDocumentsApproved_def
    by (rule preserves_bind[OF sel]) (simp add: preserves_bind[OF upd] preserves_return)
qed

lemma preserves_updateDocumentStatus:
  assumes "\<And>s. P s \<Longrightarrow> P (snd (sql_update_document_status now rd did s))"
  shows "preserves P (updateDocumentStatus fails now did rd)"
proof -
  have q: "preserves P (db_query fails (sql_update_document_status now rd did))"
    using assms by (rule preserves_query[where P=P])
  show ?thesis
    unfolding updateDocumentStatus_def
    by (rule preserves_bind[OF q])
       (simp_all add: preserves_return preserves_throw split: list.splits)
qed

lemma preserves_review_try:
  assumes frame: "\<And>s s'. driver_documents s' = driver_documents s \<Longrightarrow> P s \<Longrightarrow> P s'"
    and upd: "\<And>s rd. rd_status rd = st \<Longrightarrow> rd_rejectionReason rd = rejectionReason b \<Longrightarrow> P s \<Longrightarrow>
               P (snd (sql_update_document_status now rd did s))"
  shows "preserves P (review_try fails now did st b usr)"
proof -
  have fin: "preserves P (db_bind (db_commit fails) (\<lambda>_. db_return r))" for r :: response
    by (rule preserves_bind[OF preserves_commit]) (rule preserves_return)
  have chk: "preserves P (db_bind (checkAllDocumentsApproved fails now drv)
            (\<lambda>verificationStatus. db_bind (db_commit fails) (\<lambda>_.
               db_return \<lparr>statusCode = 200,
                     resp_body = Reviewed document (Some verificationStatus)\<rparr>)))" for drv document
    using frame by (intro preserves_bind preserves_check[where P=P] fin)
  have tail: "preserves P
      (db_bind (updateDriverProfile fails now (r_driver_id document) (r_document_type document) did)
         (\<lambda>_. db_bind (checkAllDocumentsApproved fails now (r_driver_id document))
            (\<lambda>verificationStatus. db_bind (db_commit fails) (\<lambda>_.
               db_return \<lparr>statusCode = 200,
                     resp_body = Reviewed document (Some verificationStatus)\<rparr>))))" for document
    using frame by (intro preserves_bind preserves_updateDriverProfile[where P=P] chk)
  have u: "preserves P (updateDocumentStatus fails now did (review_data st b usr))"
    by (rule preserves_updateDocumentStatus[where P=P]) (rule upd; simp add: review_data_def)
  show ?thesis
    unfolding review_try_def
    by (intro preserves_bind preserves_begin u) (simp add: tail fin)
qed

lemma preserves_handleReviewDocument:
  assumes frame: "\<And>s s'. driver_documents s' = driver_documents s \<Longrightarrow> P s \<Longrightarrow> P s'"
    and upd: "\<And>s rd st did. rd_status rd = st \<Longrightarrow> rd_rejectionReason rd = rejectionReason (body event) \<Longrightarrow>
               body_status (body event) = Some st \<Longrightarrow>
               (st = ''rejected'' \<longrightarrow> truthy (rejectionReason (body event))) \<Longrightarrow> P s \<Longrightarrow>
               P (snd (sql_update_document_status now rd did s))"
  shows "preserves P (handleReviewDocument fails now event usr)"
proof -
  have rb: "preserves P (db_bind (db_rollback fails) (\<lambda>_. db_throw error) :: response db)" for error
    by (rule preserves_bind[OF preserves_rollback]) (rule preserves_throw)
  have main: "preserves P (db_bind (getDbConnection fails) (\<lambda>_.
                   db_catch (review_try fails now did st (body event) usr)
                     (\<lambda>error. db_bind (db_rollback fails) (\<lambda>_. db_throw error))))"
    if st: "body_status (body event) = Some st" "st = ''rejected'' \<longrightarrow> truthy (rejectionReason (body event))"
    for did st
  proof -
    have t: "preserves P (review_try fails now did st (body event) usr)"
    proof (rule preserves_review_try[where P=P])
      show "\<And>s s'. driver_documents s' = driver_documents s \<Longrightarrow> P s \<Longrightarrow> P s'"
        by (rule frame)
      show "\<And>s rd. rd_status rd = st \<Longrightarrow> rd_rejectionReason rd = rejectionReason (body event) \<Longrightarrow>
              P s \<Longrightarrow> P (snd (sql_update_document_status now rd did s))"
        by (rule upd[OF _ _ st])
    qed
    show ?thesis
      by (intro preserves_bind preserves_connect preserves_catch t rb)
  qed
  show ?thesis
    unfolding handleReviewDocument_def
    by (auto split: option.splits simp: preserves_return intro!: main)
qed

lemma preserves_review_handler:
  assumes frame: "\<And>s s'. driver_documents s' = driver_documents s \<Longrightarrow> P s \<Longrightarrow> P s'"
    and upd: "\<And>s rd st did. rd_status rd = st \<Longrightarrow> rd_rejectionReason rd = rejectionReason (body event) \<Longrightarrow>
               body_status (body event) = Some st \<Longrightarrow>
               (st = ''rejected'' \<longrightarrow> truthy (rejectionReason (body event))) \<Longrightarrow> P s \<Longrightarrow>
               P (snd (sql_update_document_status now rd did s))"
  shows "preserves P (review_handler fails now event usr)"
proof -
  have h: "preserves P (handleReviewDocument fails now event usr)"
  proof (rule preserves_handleReviewDocument[where P=P])
    show "\<And>s s'. driver_documents s' = driver_documents s \<Longrightarrow> P s \<Longrightarrow> P s'"
      by (rule frame)
    show "\<And>s rd st did. rd_status rd = st \<Longrightarrow> rd_rejectionReason rd = rejectionReason (body event) \<Longrightarrow>
            body_status (body event) = Some st \<Longrightarrow>
            (st = ''rejected'' \<longrightarrow> truthy (rejectionReason (body event))) \<Longrightarrow> P s \<Longrightarrow>
            P (snd (sql_update_document_status now rd did s))"
      by (rule upd)
  qed
  show ?thesis
    unfolding review_handler_def
    by (intro preserves_catch h preserves_return)
qed

lemma preservesD: "preserves P m \<Longrightarrow> conn_ok P c \<Longrightarrow> m c = (r, c') \<Longrightarrow> conn_ok P c'"
  by (auto simp: preserves_def)

lemma preserves_upload_handler:
  assumes ins: "\<And>s new_id bucket dd. P s \<Longrightarrow> P (snd (sql_insert_document new_id bucket now dd s))"
  shows "preserves P (upload_handler fails new_id bucket s3Key now b usr)"
proof -
  have q: "preserves P (createDocumentRecord fails new_id bucket now dd)" for dd
    unfolding createDocumentRecord_def using ins by (rule preserves_query[where P=P])
  have h: "preserves P (handleUploadRequest fails new_id bucket s3Key now b usr)"
    unfolding handleUploadRequest_def
    by (auto split: option.splits simp: preserves_return
          intro!: preserves_bind preserves_connect q)
  show ?thesis
    unfolding upload_handler_def by (intro preserves_catch h preserves_return)
qed

lemma preserves_profiles_loop:
  assumes frame: "\<And>s s'. driver_documents s' = driver_documents s \<Longrightarrow> P s \<Longrightarrow> P s'"
  shows "preserves P (profiles_loop fails now ids results)"
proof (induction ids arbitrary: results)
  case Nil
  show ?case by (simp add: preserves_return)
next
  case (Cons driverId rest)
  have sel: "preserves P (db_query fails (sql_select_approved driverId))"
    by (rule preserves_query[where P=P]) simp
  have "P (snd (sql_update_profile_incomplete now driverId s))" if "P s" for s
    using frame[of "snd (sql_update_profile_incomplete now driverId s)" s] that by simp
  then have upd: "preserves P (db_query fails (sql_update_profile_incomplete now driverId))"
    by (rule preserves_query[where P=P])
  show ?case
    by (simp only: profiles_loop.simps, rule preserves_bind[OF sel])
       (simp add: preserves_bind[OF upd] Cons.IH)
qed

lemma preserves_sweep_handler:
  assumes frame: "\<And>s s'. driver_documents s' = driver_documents s \<Longrightarrow> P s \<Longrightarrow> P s'"
    and expd: "\<And>s. P s \<Longrightarrow> P (snd (sql_mark_expired today now s))"
    and notif: "\<And>s ids. P s \<Longrightarrow> P (snd (sql_mark_notified now ids s))"
  shows "preserves P (sweep_handler fails today now)"
proof -
  have mark: "preserves P (markNotificationSent fails now ids)" for ids
  proof (cases "ids = []")
    case True
    then show ?thesis by (simp add: markNotificationSent_def preserves_return)
  next
    case False
    have "preserves P (db_query fails (sql_mark_notified now ids))"
      using notif by (rule preserves_query[where P=P])
    with False show ?thesis by (simp add: markNotificationSent_def)
  qed
  have s4: "conn_ok P (snd (sweep_step4 fails now results expiringDocs c))"
    if "conn_ok P c" for results expiringDocs c
    using that preservesD[OF mark that]
    by (auto simp: sweep_step4_def Let_def split: prod.splits sum.splits)
  have find: "preserves P (findExpiringDocuments fails today n)" for n
    unfolding findExpiringDocuments_def by (rule preserves_query[where P=P]) simp
  have s3: "conn_ok P (snd (sweep_step3 fails today now results c))"
    if "conn_ok P c" for results c
    using preservesD[OF find that] s4
    by (auto simp: sweep_step3_def split: prod.splits sum.splits)
  have upd: "preserves P (updateDriverProfilesForExpiredDocs fails now expiredDocs)" for expiredDocs
    unfolding updateDriverProfilesForExpiredDocs_def
    using preserves_profiles_loop[where P=P, OF frame]
    by (simp add: preserves_return)
  have s2: "conn_ok P (snd (sweep_step2 fails today now results expiredDocs c))"
    if "conn_ok P c" for results expiredDocs c
    using preservesD[OF upd that] s3 that
    by (auto simp: sweep_step2_def split: prod.splits sum.splits)
  have me: "preserves P (markExpiredDocuments fails today now)"
    unfolding markExpiredDocuments_def using expd by (rule preserves_query[where P=P])
  show ?thesis
    unfolding preserves_def
  proof (intro allI impI)
    fix c assume ok: "conn_ok P c"
    obtain r1 c1 where g: "getDbConnection fails c = (r1, c1)" by (cases "getDbConnection fails c")
    have ok1: "conn_ok P c1" by (rule preservesD[OF preserves_connect ok g])
    obtain r2 c2 where m: "markExpiredDocuments fails today now c1 = (r2, c2)"
      by (cases "markExpiredDocuments fails today now c1")
    have ok2: "conn_ok P c2" by (rule preservesD[OF me ok1 m])
    show "conn_ok P (snd (sweep_handler fails today now c))"
      using g m ok1 ok2 s2[OF ok2]
      by (simp add: sweep_handler_def Let_def split: sum.splits)
  qed
qed

lemmas monad_defs = db_return_def db_throw_def db_bind_def db_catch_def db_query_def
  db_begin_def db_commit_def db_rollback_def getDbConnection_def no_faults_def Let_def

lemmas review_defs = review_handler_def handleReviewDocument_def review_try_def review_data_def
  updateDocumentStatus_def sql_update_document_status_def set_review_def returning_review_def
  updateDriverProfile_def columnMap_def sql_update_profile_column_def set_profile_column_def
  checkAllDocumentsApproved_def sql_select_approved_def requiredDocs_def
  sql_update_profile_complete_def set_complete_def returning_complete_def first_row_def
  validStatuses_def truthy_def or_null_def coalesce_def

lemmas upload_defs = upload_handler_def handleUploadRequest_def createDocumentRecord_def
  sql_insert_document_def getDocumentCategory_def validTypes_def

lemma ex_conn1_docs:
  "ex_conn1 = \<lparr>committed = \<lparr>driver_documents =
       [\<lparr>doc_id = ''d1'', driver_id = ''u1'', document_type = ''license'',
           status = ''pending'', verified_at = None, verified_by = None,
           rejection_reason = None, doc_notes = None,
           document_number = None, issuing_authority = None,
           issue_date = None, expiry_date = None,
           expiration_notified_at = None, created_at = 1, updated_at = 1,
           file_ref =
             \<lparr>tenant_id = None, document_category = ''identity'',
                s3_key = ''key1'', s3_bucket = ''bucket'', file_name = ''a.pdf'',
                file_size_bytes = 0, mime_type = ''application/pdf''\<rparr>\<rparr>],
       driver_profiles = []\<rparr>, tx = None, nqueries = 2\<rparr>"
  by (simp add: ex_conn1_def ex_conn0_def ex_upload_def ex_driver_def upload_defs monad_defs)

lemma ex_rejected_docs:
  "length (driver_documents (committed ex_rejected)) = 1 \<and>
   doc_notes (hd (driver_documents (committed ex_rejected))) = Some ''retake'' \<and>
   status (hd (driver_documents (committed ex_rejected))) = ''rejected'' \<and>
   rejection_reason (hd (driver_documents (committed ex_rejected))) = Some ''blurry''"
  by (simp add: ex_rejected_def ex_conn1_docs ex_review_def ex_admin_def review_defs monad_defs)

lemma ex_pending_docs:
  "length (driver_documents (committed ex_pending_with_reason)) = 1 \<and>
   status (hd (driver_documents (committed ex_pending_with_reason))) = ''pending'' \<and>
   rejection_reason (hd (driver_documents (committed ex_pending_with_reason))) = Some ''blurry''"
  by (simp add: ex_pending_with_reason_def ex_conn1_docs ex_review_def ex_admin_def review_defs monad_defs)

section \<open>The rejection-reason invariant\<close>

lemma reachable_conn_ok:
  assumes "reachable allowed c"
    and frame: "\<And>s s'. driver_documents s' = driver_documents s \<Longrightarrow> P s \<Longrightarrow> P s'"
    and emp: "\<And>ps. P \<lparr>driver_documents = [], driver_profiles = ps\<rparr>"
    and ins: "\<And>s new_id bucket now dd. P s \<Longrightarrow> P (snd (sql_insert_document new_id bucket now dd s))"
    and upd: "\<And>s rd st did now event. allowed event \<Longrightarrow> rd_status rd = st \<Longrightarrow>
               rd_rejectionReason rd = rejectionReason (body event) \<Longrightarrow>
               body_status (body event) = Some st \<Longrightarrow>
               (st = ''rejected'' \<longrightarrow> truthy (rejectionReason (body event))) \<Longrightarrow> P s \<Longrightarrow>
               P (snd (sql_update_document_status now rd did s))"
    and expd: "\<And>s today now. P s \<Longrightarrow> P (snd (sql_mark_expired today now s))"
    and notif: "\<And>s ids now. P s \<Longrightarrow> P (snd (sql_mark_notified now ids s))"
  shows "conn_ok P c"
  using assms(1)
proof (induction rule: reachable.induct)
  case (initial ps)
  show ?case by (simp add: conn_ok_def emp)
next
  case (upload c fails new_id bucket s3Key now b usr)
  have "preserves P (upload_handler fails new_id bucket s3Key now b usr)"
    by (rule preserves_upload_handler[where P=P]) (rule ins)
  with upload.IH show ?case by (simp add: preserves_def)
next
  case (review c event fails now usr)
  have "preserves P (review_handler fails now event usr)"
  proof (rule preserves_review_handler[where P=P])
    show "\<And>s s'. driver_documents s' = driver_documents s \<Longrightarrow> P s \<Longrightarrow> P s'" by (rule frame)
    show "\<And>s rd st did. rd_status rd = st \<Longrightarrow> rd_rejectionReason rd = rejectionReason (body event) \<Longrightarrow>
            body_status (body event) = Some st \<Longrightarrow>
            (st = ''rejected'' \<longrightarrow> truthy (rejectionReason (body event))) \<Longrightarrow> P s \<Longrightarrow>
            P (snd (sql_update_document_status now rd did s))"
      by (rule upd[OF review.hyps(2)])
  qed
  with review.IH show ?case by (simp add: preserves_def)
next
  case (sweep c fails today now)
  have "preserves P (sweep_handler fails today now)"
  proof (rule preserves_sweep_handler[where P=P])
    show "\<And>s s'. driver_documents s' = driver_documents s \<Longrightarrow> P s \<Longrightarrow> P s'" by (rule frame)
    show "\<And>s. P s \<Longrightarrow> P (snd (sql_mark_expired today now s))" by (rule expd)
    show "\<And>s ids. P s \<Longrightarrow> P (snd (sql_mark_notified now ids s))" by (rule notif)
  qed
  with sweep.IH show ?case by (simp add: preserves_def)
qed

lemma has_reason_reachable:
  assumes "reachable any_review c"
  shows "rejected_has_reason (committed c)"
proof -
  have "conn_ok rejected_has_reason c"
    using assms
  proof (rule reachable_conn_ok)
    show "\<And>s rd st did now event. any_review event \<Longrightarrow> rd_status rd = st \<Longrightarrow>
               rd_rejectionReason rd = rejectionReason (body event) \<Longrightarrow>
               body_status (body event) = Some st \<Longrightarrow>
               (st = ''rejected'' \<longrightarrow> truthy (rejectionReason (body event))) \<Longrightarrow> rejected_has_reason s \<Longrightarrow>
               rejected_has_reason (snd (sql_update_document_status now rd did s))"
      by (rule set_review_has_reason) simp
  qed (auto simp: rejected_has_reason_def sql_insert_document_def sql_mark_expired_def
         set_expired_def sql_mark_notified_def)
  then show ?thesis by (simp add: conn_ok_def)
qed

lemma iff_reachable:
  assumes "reachable reason_only_when_rejected c"
  shows "reason_iff_rejected (committed c)"
proof -
  have "conn_ok reason_iff_rejected c"
    using assms
  proof (rule reachable_conn_ok)
    show "\<And>s rd st did now event. reason_only_when_rejected event \<Longrightarrow> rd_status rd = st \<Longrightarrow>
               rd_rejectionReason rd = rejectionReason (body event) \<Longrightarrow>
               body_status (body event) = Some st \<Longrightarrow>
               (st = ''rejected'' \<longrightarrow> truthy (rejectionReason (body event))) \<Longrightarrow> reason_iff_rejected s \<Longrightarrow>
               reason_iff_rejected (snd (sql_update_document_status now rd did s))"
      by (rule set_review_iff) (auto simp: reason_only_when_rejected_def)
  qed (auto simp: reason_iff_rejected_def sql_insert_document_def sql_mark_expired_def
         set_expired_def sql_mark_notified_def past_expiry_def)
  then show ?thesis by (simp add: conn_ok_def)
qed

lemma ex_conn1_reachable: "reachable allowed ex_conn1"
  unfolding ex_conn1_def ex_conn0_def by (intro reachable.upload reachable.initial)

lemma ex_rejected_reachable: "reachable any_review ex_rejected \<and> reachable reason_only_when_rejected ex_rejected"
  unfolding ex_rejected_def
  by (intro conjI reachable.review ex_conn1_reachable)
     (simp_all add: any_review_def reason_only_when_rejected_def ex_review_def)

text \<open>
  Claim C1, as amended. For every connection reachable through upload, review and the
  expiry sweep, every document with status rejected has a rejection reason. The converse
  (a document with a rejection reason is rejected) holds for the connections reached when
  every review request supplies a rejection reason only together with status rejected.
\<close>

theorem rejection_reason_invariant:
  "(reachable any_review c \<longrightarrow> rejected_has_reason (committed c)) \<and>
   (reachable reason_only_when_rejected c \<longrightarrow> reason_iff_rejected (committed c))"
  using has_reason_reachable iff_reachable by blast

text \<open>Witness for C1: the upload of d1 followed by its rejection with a reason.\<close>

theorem rejection_reason_invariant_witness:
  "reachable any_review ex_rejected \<and> rejected_has_reason (committed ex_rejected) \<and>
   reachable reason_only_when_rejected ex_rejected \<and> reason_iff_rejected (committed ex_rejected) \<and>
   status (hd (driver_documents (committed ex_rejected))) = ''rejected'' \<and>
   rejection_reason (hd (driver_documents (committed ex_rejected))) = Some ''blurry''"
  using rejection_reason_invariant[of ex_rejected] ex_rejected_reachable ex_rejected_docs
  by simp

text \<open>
  Counterexample to C1 as stated: a review of d1 with status pending and a rejection reason
  stores the reason on a pending document.
\<close>

theorem rejection_reason_iff_counterexample:
  "reachable any_review ex_pending_with_reason \<and>
   status (hd (driver_documents (committed ex_pending_with_reason))) = ''pending'' \<and>
   rejection_reason (hd (driver_documents (committed ex_pending_with_reason))) = Some ''blurry'' \<and>
   \<not> reason_iff_rejected (committed ex_pending_with_reason)"
proof -
  have r: "reachable any_review ex_pending_with_reason"
    unfolding ex_pending_with_reason_def
    by (intro reachable.review ex_conn1_reachable) (simp add: any_review_def)
  have "\<not> reason_iff_rejected (committed ex_pending_with_reason)"
    using ex_pending_docs
    by (cases "driver_documents (committed ex_pending_with_reason)")
       (auto simp: reason_iff_rejected_def)
  with r ex_pending_docs show ?thesis by simp
qed

section \<open>The review transaction\<close>

lemma tx_safeD:
  "tx_safe m \<Longrightarrow> tx c \<noteq> None \<Longrightarrow> m c = (r, c') \<Longrightarrow> committed c' = committed c \<and> tx c' \<noteq> None"
  by (auto simp: tx_safe_def)

lemma tx_safe_return: "tx_safe (db_return x)"
  by (simp add: tx_safe_def db_return_def)

lemma tx_safe_throw: "tx_safe (db_throw e)"
  by (simp add: tx_safe_def db_throw_def)

lemma tx_safe_query: "tx_safe (db_query fails q)"
  by (auto simp: tx_safe_def db_query_def Let_def split: prod.splits)

lemma tx_safe_bind:
  assumes "tx_safe m" and "\<And>x. tx_safe (k x)"
  shows "tx_safe (db_bind m k)"
proof (unfold tx_safe_def, intro allI impI)
  fix c :: conn assume t: "tx c \<noteq> None"
  obtain r c' where mc: "m c = (r, c')" by (cases "m c")
  from tx_safeD[OF assms(1) t mc] have c': "committed c' = committed c" "tx c' \<noteq> None" by auto
  show "committed (snd (db_bind m k c)) = committed c \<and> tx (snd (db_bind m k c)) \<noteq> None"
  proof (cases r)
    case (Inl e)
    with mc c' show ?thesis by (simp add: db_bind_def)
  next
    case (Inr x)
    obtain r2 c2 where kc: "k x c' = (r2, c2)" by (cases "k x c'")
    from tx_safeD[OF assms(2) c'(2) kc] c' mc Inr kc show ?thesis by (simp add: db_bind_def)
  qed
qed

lemma tx_safe_updateDocumentStatus: "tx_safe (updateDocumentStatus fails now did rd)"
  unfolding updateDocumentStatus_def
  by (rule tx_safe_bind[OF tx_safe_query]) (simp add: tx_safe_return tx_safe_throw split: list.splits)

lemma tx_safe_updateDriverProfile: "tx_safe (updateDriverProfile fails now driverId dtype did)"
  unfolding updateDriverProfile_def
  by (simp add: tx_safe_return tx_safe_query split: option.splits)

lemma tx_safe_check: "tx_safe (checkAllDocumentsApproved fails now driverId)"
  unfolding checkAllDocumentsApproved_def
  by (rule tx_safe_bind[OF tx_safe_query]) (simp add: tx_safe_bind[OF tx_safe_query] tx_safe_return)

lemma db_query_Inr:
  "db_query fails q c = (Inr x, c') \<Longrightarrow>
     x = fst (q (visible c)) \<and> visible c' = snd (q (visible c)) \<and> (tx c' = None) = (tx c = None)"
  by (auto simp: db_query_def visible_def Let_def split: if_splits option.splits prod.splits)


lemma db_bind_Inr:
  "db_bind m k c = (Inr y, c') \<Longrightarrow> \<exists>x c1. m c = (Inr x, c1) \<and> k x c1 = (Inr y, c')"
  by (auto simp: db_bind_def split: prod.splits sum.splits)

lemma updateDocumentStatus_Inr:
  assumes "updateDocumentStatus fails now did rd c = (Inr document, c')"
  shows "visible c' = snd (sql_update_document_status now rd did (visible c)) \<and>
         first_row (fst (sql_update_document_status now rd did (visible c))) = Some document \<and>
         (tx c' = None) = (tx c = None)"
proof -
  from db_bind_Inr[OF assms[unfolded updateDocumentStatus_def]]
  obtain rows c1 where q: "db_query fails (sql_update_document_status now rd did) c = (Inr rows, c1)"
    and k: "(case rows of [] \<Rightarrow> db_throw DocumentNotFound | r # _ \<Rightarrow> db_return r) c1 = (Inr document, c')"
    by blast
  from k have "c' = c1 \<and> first_row rows = Some document"
    by (cases rows) (auto simp: db_throw_def db_return_def first_row_def)
  with db_query_Inr[OF q] show ?thesis by simp
qed

lemma updateDriverProfile_Inr:
  assumes "updateDriverProfile fails now driverId dtype did c = (Inr u, c')"
  shows "driver_documents (visible c') = driver_documents (visible c) \<and>
         visible c' = (case columnMap dtype of None \<Rightarrow> visible c
                       | Some column \<Rightarrow> snd (sql_update_profile_column now column did driverId (visible c))) \<and>
         (tx c' = None) = (tx c = None)"
proof (cases "columnMap dtype")
  case None
  with assms show ?thesis by (simp add: updateDriverProfile_def db_return_def)
next
  case (Some column)
  with assms have "db_query fails (sql_update_profile_column now column did driverId) c = (Inr u, c')"
    by (simp add: updateDriverProfile_def)
  from db_query_Inr[OF this] Some show ?thesis by simp
qed

lemma check_Inr:
  assumes "checkAllDocumentsApproved fails now driverId c = (Inr vs, c')"
  shows "(tx c' = None) = (tx c = None) \<and>
         allDocumentsApproved vs =
           list_all (\<lambda>doc. doc \<in> set (fst (sql_select_approved driverId (visible c)))) requiredDocs \<and>
         (if allDocumentsApproved vs
          then visible c' = snd (sql_update_profile_complete now driverId (visible c)) \<and>
               profileUpdated vs \<and> missingDocuments vs = None \<and>
               profileStatus vs = first_row (fst (sql_update_profile_complete now driverId (visible c)))
          else visible c' = visible c \<and> \<not> profileUpdated vs \<and> profileStatus vs = None \<and>
               missingDocuments vs =
                 Some (filter (\<lambda>doc. doc \<notin> set (fst (sql_select_approved driverId (visible c)))) requiredDocs))"
proof -
  from db_bind_Inr[OF assms[unfolded checkAllDocumentsApproved_def]]
  obtain approvedDocs c1 where q: "db_query fails (sql_select_approved driverId) c = (Inr approvedDocs, c1)"
    and k: "(if list_all (\<lambda>doc. doc \<in> set approvedDocs) requiredDocs
       then db_bind (db_query fails (sql_update_profile_complete now driverId)) (\<lambda>rows.
              db_return \<lparr>allDocumentsApproved = True, profileUpdated = True,
                         profileStatus = first_row rows, missingDocuments = None\<rparr>)
       else db_return \<lparr>allDocumentsApproved = False, profileUpdated = False,
                       profileStatus = None,
                       missingDocuments =
                         Some (filter (\<lambda>doc. doc \<notin> set approvedDocs) requiredDocs)\<rparr>) c1 = (Inr vs, c')"
    by blast
  from db_query_Inr[OF q] have a: "approvedDocs = fst (sql_select_approved driverId (visible c))"
    and v1: "visible c1 = visible c" and t1: "(tx c1 = None) = (tx c = None)" by simp_all
  show ?thesis
  proof (cases "list_all (\<lambda>doc. doc \<in> set approvedDocs) requiredDocs")
    case True
    with k have "db_bind (db_query fails (sql_update_profile_complete now driverId)) (\<lambda>rows.
              db_return \<lparr>allDocumentsApproved = True, profileUpdated = True,
                         profileStatus = first_row rows, missingDocuments = None\<rparr>) c1 = (Inr vs, c')"
      by simp
    from db_bind_Inr[OF this] obtain rows c2
      where q2: "db_query fails (sql_update_profile_complete now driverId) c1 = (Inr rows, c2)"
        and r: "db_return \<lparr>allDocumentsApproved = True, profileUpdated = True,
                         profileStatus = first_row rows, missingDocuments = None\<rparr> c2 = (Inr vs, c')"
      by blast
    from r have "c' = c2" and vs: "vs = \<lparr>allDocumentsApproved = True, profileUpdated = True,
                         profileStatus = first_row rows, missingDocuments = None\<rparr>"
      by (auto simp: db_return_def)
    with db_query_Inr[OF q2] True a v1 t1 show ?thesis by simp
  next
    case False
    with k have "c' = c1" and "vs = \<lparr>allDocumentsApproved = False, profileUpdated = False,
                       profileStatus = None,
                       missingDocuments =
                         Some (filter (\<lambda>doc. doc \<notin> set approvedDocs) requiredDocs)\<rparr>"
      by (auto simp: db_return_def)
    with False a v1 t1 show ?thesis by simp
  qed
qed

lemma db_bind_Inl:
  "db_bind m k c = (Inl e, c') \<Longrightarrow>
     m c = (Inl e, c') \<or> (\<exists>x c1. m c = (Inr x, c1) \<and> k x c1 = (Inl e, c'))"
  by (auto simp: db_bind_def split: prod.splits sum.splits)

lemma db_begin_cases:
  assumes "tx c = None" and "db_begin fails c = (r, c')"
  shows "committed c' = committed c \<and>
         (case r of Inl e \<Rightarrow> tx c' = None | Inr u \<Rightarrow> tx c' = Some (committed c))"
  using assms by (auto simp: db_begin_def Let_def split: if_splits)

lemma db_commit_Inr:
  "db_commit fails c = (Inr u, c') \<Longrightarrow> committed c' = visible c \<and> tx c' = None"
  by (auto simp: db_commit_def visible_def Let_def split: if_splits option.splits)

lemma db_commit_Inl:
  "db_commit fails c = (Inl e, c') \<Longrightarrow> committed c' = committed c"
  by (auto simp: db_commit_def Let_def split: if_splits option.splits)

lemma db_rollback_committed:
  "db_rollback fails c = (r, c') \<Longrightarrow> committed c' = committed c"
  by (auto simp: db_rollback_def Let_def split: if_splits)

lemma commit_return_Inl:
  "db_bind (db_commit fails) (\<lambda>_. db_return r) c = (Inl e, c') \<Longrightarrow> committed c' = committed c"
  by (auto dest!: db_bind_Inl db_commit_Inl simp: db_return_def)

lemma commit_return_Inr:
  "db_bind (db_commit fails) (\<lambda>_. db_return r) c = (Inr r', c') \<Longrightarrow>
     r' = r \<and> committed c' = visible c \<and> tx c' = None"
  by (auto dest!: db_bind_Inr db_commit_Inr simp: db_return_def)

lemma review_try_Inl:
  assumes c: "tx c = None" and run: "review_try fails now did st b usr c = (Inl e, c')"
  shows "committed c' = committed c"
proof -
  note run' = run[unfolded review_try_def]
  from db_bind_Inl[OF run'] show ?thesis
  proof
    assume "db_begin fails c = (Inl e, c')"
    from db_begin_cases[OF c this] show ?thesis by simp
  next
    assume "\<exists>x cb. db_begin fails c = (Inr x, cb) \<and>
       db_bind (updateDocumentStatus fails now did (review_data st b usr))
        (\<lambda>document. if st = ''approved''
           then db_bind (updateDriverProfile fails now (r_driver_id document) (r_document_type document) did)
             (\<lambda>_. db_bind (checkAllDocumentsApproved fails now (r_driver_id document))
               (\<lambda>verificationStatus. db_bind (db_commit fails)
                 (\<lambda>_. db_return \<lparr>statusCode = 200, resp_body = Reviewed document (Some verificationStatus)\<rparr>)))
           else db_bind (db_commit fails)
                 (\<lambda>_. db_return \<lparr>statusCode = 200, resp_body = Reviewed document None\<rparr>)) cb = (Inl e, c')"
    then obtain x cb where b: "db_begin fails c = (Inr x, cb)"
      and rest: "db_bind (updateDocumentStatus fails now did (review_data st b usr))
        (\<lambda>document. if st = ''approved''
           then db_bind (updateDriverProfile fails now (r_driver_id document) (r_document_type document) did)
             (\<lambda>_. db_bind (checkAllDocumentsApproved fails now (r_driver_id document))
               (\<lambda>verificationStatus. db_bind (db_commit fails)
                 (\<lambda>_. db_return \<lparr>statusCode = 200, resp_body = Reviewed document (Some verificationStatus)\<rparr>)))
           else db_bind (db_commit fails)
                 (\<lambda>_. db_return \<lparr>statusCode = 200, resp_body = Reviewed document None\<rparr>)) cb = (Inl e, c')"
      by blast
    from db_begin_cases[OF c b] have cb: "committed cb = committed c" "tx cb \<noteq> None" by simp_all
    from db_bind_Inl[OF rest] show ?thesis
    proof
      assume "updateDocumentStatus fails now did (review_data st b usr) cb = (Inl e, c')"
      from tx_safeD[OF tx_safe_updateDocumentStatus cb(2) this] cb show ?thesis by simp
    next
      assume "\<exists>document c1. updateDocumentStatus fails now did (review_data st b usr) cb = (Inr document, c1) \<and>
         (if st = ''approved''
           then db_bind (updateDriverProfile fails now (r_driver_id document) (r_document_type document) did)
             (\<lambda>_. db_bind (checkAllDocumentsApproved fails now (r_driver_id document))
               (\<lambda>verificationStatus. db_bind (db_commit fails)
                 (\<lambda>_. db_return \<lparr>statusCode = 200, resp_body = Reviewed document (Some verificationStatus)\<rparr>)))
           else db_bind (db_commit fails)
                 (\<lambda>_. db_return \<lparr>statusCode = 200, resp_body = Reviewed document None\<rparr>)) c1 = (Inl e, c')"
      then obtain document c1
        where u: "updateDocumentStatus fails now did (review_data st b usr) cb = (Inr document, c1)"
          and rest2: "(if st = ''approved''
           then db_bind (updateDriverProfile fails now (r_driver_id document) (r_document_type document) did)
             (\<lambda>_. db_bind (checkAllDocumentsApproved fails now (r_driver_id document))
               (\<lambda>verificationStatus. db_bind (db_commit fails)
                 (\<lambda>_. db_return \<lparr>statusCode = 200, resp_body = Reviewed document (Some verificationStatus)\<rparr>)))
           else db_bind (db_commit fails)
                 (\<lambda>_. db_return \<lparr>statusCode = 200, resp_body = Reviewed document None\<rparr>)) c1 = (Inl e, c')"
        by blast
      from tx_safeD[OF tx_safe_updateDocumentStatus cb(2) u] cb
      have c1: "committed c1 = committed c" "tx c1 \<noteq> None" by simp_all
      show ?thesis
      proof (cases "st = ''approved''")
        case False
        with rest2 commit_return_Inl c1 show ?thesis by fastforce
      next
        case True
        with rest2 have r3: "db_bind (updateDriverProfile fails now (r_driver_id document) (r_document_type document) did)
             (\<lambda>_. db_bind (checkAllDocumentsApproved fails now (r_driver_id document))
               (\<lambda>verificationStatus. db_bind (db_commit fails)
                 (\<lambda>_. db_return \<lparr>statusCode = 200, resp_body = Reviewed document (Some verificationStatus)\<rparr>))) c1
             = (Inl e, c')" by simp
        from db_bind_Inl[OF r3] show ?thesis
        proof
          assume "updateDriverProfile fails now (r_driver_id document) (r_document_type document) did c1 = (Inl e, c')"
          from tx_safeD[OF tx_safe_updateDriverProfile c1(2) this] c1 show ?thesis by simp
        next
          assume "\<exists>x c2. updateDriverProfile fails now (r_driver_id document) (r_document_type document) did c1 = (Inr x, c2) \<and>
             db_bind (checkAllDocumentsApproved fails now (r_driver_id document))
               (\<lambda>verificationStatus. db_bind (db_commit fails)
                 (\<lambda>_. db_return \<lparr>statusCode = 200, resp_body = Reviewed document (Some verificationStatus)\<rparr>)) c2
             = (Inl e, c')"
          then obtain x2 c2
            where p: "updateDriverProfile fails now (r_driver_id document) (r_document_type document) did c1 = (Inr x2, c2)"
              and r4: "db_bind (checkAllDocumentsApproved fails now (r_driver_id document))
               (\<lambda>verificationStatus. db_bind (db_commit fails)
                 (\<lambda>_. db_return \<lparr>statusCode = 200, resp_body = Reviewed document (Some verificationStatus)\<rparr>)) c2
             = (Inl e, c')" by blast
          from tx_safeD[OF tx_safe_updateDriverProfile c1(2) p] c1
          have c2: "committed c2 = committed c" "tx c2 \<noteq> None" by simp_all
          from db_bind_Inl[OF r4] show ?thesis
          proof
            assume "checkAllDocumentsApproved fails now (r_driver_id document) c2 = (Inl e, c')"
            from tx_safeD[OF tx_safe_check c2(2) this] c2 show ?thesis by simp
          next
            assume "\<exists>vs c3. checkAllDocumentsApproved fails now (r_driver_id document) c2 = (Inr vs, c3) \<and>
               db_bind (db_commit fails)
                 (\<lambda>_. db_return \<lparr>statusCode = 200, resp_body = Reviewed document (Some vs)\<rparr>) c3 = (Inl e, c')"
            then obtain vs c3
              where k: "checkAllDocumentsApproved fails now (r_driver_id document) c2 = (Inr vs, c3)"
                and cm: "db_bind (db_commit fails)
                 (\<lambda>_. db_return \<lparr>statusCode = 200, resp_body = Reviewed document (Some vs)\<rparr>) c3 = (Inl e, c')"
              by blast
            from tx_safeD[OF tx_safe_check c2(2) k] c2 commit_return_Inl[OF cm]
            show ?thesis by simp
          qed
        qed
      qed
    qed
  qed
qed

lemma review_try_Inr:
  assumes c: "tx c = None" and run: "review_try fails now did st b usr c = (Inr r, c')"
  shows "\<exists>cb document c1.
           db_begin fails c = (Inr (), cb) \<and> tx cb = Some (committed c) \<and> committed cb = committed c \<and>
           updateDocumentStatus fails now did (review_data st b usr) cb = (Inr document, c1) \<and>
           tx c1 \<noteq> None \<and> committed c1 = committed c \<and> tx c' = None \<and>
           (if st = ''approved''
            then \<exists>c2 verificationStatus c3.
                   updateDriverProfile fails now (r_driver_id document) (r_document_type document) did c1
                     = (Inr (), c2) \<and> tx c2 \<noteq> None \<and> committed c2 = committed c \<and>
                   checkAllDocumentsApproved fails now (r_driver_id document) c2
                     = (Inr verificationStatus, c3) \<and> tx c3 \<noteq> None \<and> committed c3 = committed c \<and>
                   committed c' = visible c3 \<and>
                   r = \<lparr>statusCode = 200, resp_body = Reviewed document (Some verificationStatus)\<rparr>
            else committed c' = visible c1 \<and>
                 r = \<lparr>statusCode = 200, resp_body = Reviewed document None\<rparr>)"
proof -
  note run' = run[unfolded review_try_def]
  from db_bind_Inr[OF run'] obtain x cb
    where b: "db_begin fails c = (Inr x, cb)"
      and rest: "db_bind (updateDocumentStatus fails now did (review_data st b usr))
        (\<lambda>document. if st = ''approved''
           then db_bind (updateDriverProfile fails now (r_driver_id document) (r_document_type document) did)
             (\<lambda>_. db_bind (checkAllDocumentsApproved fails now (r_driver_id document))
               (\<lambda>verificationStatus. db_bind (db_commit fails)
                 (\<lambda>_. db_return \<lparr>statusCode = 200, resp_body = Reviewed document (Some verificationStatus)\<rparr>)))
           else db_bind (db_commit fails)
                 (\<lambda>_. db_return \<lparr>statusCode = 200, resp_body = Reviewed document None\<rparr>)) cb = (Inr r, c')"
    by blast
  from db_begin_cases[OF c b] have cb: "committed cb = committed c" "tx cb = Some (committed c)" by simp_all
  then have cbt: "tx cb \<noteq> None" by simp
  from db_bind_Inr[OF rest] obtain document c1
    where u: "updateDocumentStatus fails now did (review_data st b usr) cb = (Inr document, c1)"
      and rest2: "(if st = ''approved''
           then db_bind (updateDriverProfile fails now (r_driver_id document) (r_document_type document) did)
             (\<lambda>_. db_bind (checkAllDocumentsApproved fails now (r_driver_id document))
               (\<lambda>verificationStatus. db_bind (db_commit fails)
                 (\<lambda>_. db_return \<lparr>statusCode = 200, resp_body = Reviewed document (Some verificationStatus)\<rparr>)))
           else db_bind (db_commit fails)
                 (\<lambda>_. db_return \<lparr>statusCode = 200, resp_body = Reviewed document None\<rparr>)) c1 = (Inr r, c')"
    by blast
  from tx_safeD[OF tx_safe_updateDocumentStatus cbt u] cb
  have c1: "committed c1 = committed c" "tx c1 \<noteq> None" by simp_all
  show ?thesis
  proof (cases "st = ''approved''")
    case False
    with rest2 have "db_bind (db_commit fails)
                 (\<lambda>_. db_return \<lparr>statusCode = 200, resp_body = Reviewed document None\<rparr>) c1 = (Inr r, c')"
      by simp
    from commit_return_Inr[OF this] False b cb u c1 show ?thesis by auto
  next
    case True
    with rest2 have r3: "db_bind (updateDriverProfile fails now (r_driver_id document) (r_document_type document) did)
             (\<lambda>_. db_bind (checkAllDocumentsApproved fails now (r_driver_id document))
               (\<lambda>verificationStatus. db_bind (db_commit fails)
                 (\<lambda>_. db_return \<lparr>statusCode = 200, resp_body = Reviewed document (Some verificationStatus)\<rparr>))) c1
             = (Inr r, c')" by simp
    from db_bind_Inr[OF r3] obtain x2 c2
      where p: "updateDriverProfile fails now (r_driver_id document) (r_document_type document) did c1 = (Inr x2, c2)"
        and r4: "db_bind (checkAllDocumentsApproved fails now (r_driver_id document))
               (\<lambda>verificationStatus. db_bind (db_commit fails)
                 (\<lambda>_. db_return \<lparr>statusCode = 200, resp_body = Reviewed document (Some verificationStatus)\<rparr>)) c2
             = (Inr r, c')" by blast
    from tx_safeD[OF tx_safe_updateDriverProfile c1(2) p] c1
    have c2: "committed c2 = committed c" "tx c2 \<noteq> None" by simp_all
    from db_bind_Inr[OF r4] obtain vs c3
      where k: "checkAllDocumentsApproved fails now (r_driver_id document) c2 = (Inr vs, c3)"
        and cm: "db_bind (db_commit fails)
                 (\<lambda>_. db_return \<lparr>statusCode = 200, resp_body = Reviewed document (Some vs)\<rparr>) c3 = (Inr r, c')"
      by blast
    from tx_safeD[OF tx_safe_check c2(2) k] c2
    have c3: "committed c3 = committed c" "tx c3 \<noteq> None" by simp_all
    from commit_return_Inr[OF cm] have fin: "r = \<lparr>statusCode = 200, resp_body = Reviewed document (Some vs)\<rparr>"
      "committed c' = visible c3" "tx c' = None" by simp_all
    from True b cb u c1 p c2 k c3 fin show ?thesis by auto
  qed
qed

lemma handle_invalid:
  assumes "\<not> review_valid event usr"
  shows "\<exists>r. handleReviewDocument fails now event usr c = (Inr r, c) \<and>
             (statusCode r = 400 \<or> statusCode r = 403) \<and> (isAdmin usr \<longrightarrow> statusCode r = 400)"
  using assms
  by (auto simp: review_valid_def handleReviewDocument_def db_return_def validStatuses_def
        split: option.splits)

lemma handle_valid:
  assumes "review_valid event usr"
  shows "\<exists>did st. documentId event = Some did \<and> body_status (body event) = Some st \<and>
           handleReviewDocument fails now event usr =
             db_bind (getDbConnection fails) (\<lambda>_.
               db_catch (review_try fails now did st (body event) usr)
                 (\<lambda>error. db_bind (db_rollback fails) (\<lambda>_. db_throw error)))"
  using assms
  by (auto simp: review_valid_def handleReviewDocument_def validStatuses_def
        split: option.splits)

lemma getDbConnection_cases:
  "getDbConnection fails c = (r, c') \<Longrightarrow> committed c' = committed c \<and> tx c' = tx c"
  by (auto simp: getDbConnection_def Let_def split: if_splits)

lemma rollback_throw:
  "db_bind (db_rollback fails) (\<lambda>_. db_throw error) c = (r, c') \<Longrightarrow>
     committed c' = committed c \<and> (\<exists>e. r = Inl e)"
  by (auto simp: db_bind_def db_throw_def split: prod.splits sum.splits dest: db_rollback_committed)

lemma handle_valid_Inl:
  assumes v: "review_valid event usr" and c: "tx c = None"
    and run: "handleReviewDocument fails now event usr c = (Inl e, c')"
  shows "committed c' = committed c"
proof -
  from handle_valid[OF v] obtain did st where
    h: "handleReviewDocument fails now event usr =
             db_bind (getDbConnection fails) (\<lambda>_.
               db_catch (review_try fails now did st (body event) usr)
                 (\<lambda>error. db_bind (db_rollback fails) (\<lambda>_. db_throw error)))" by blast
  from db_bind_Inl[OF run[unfolded h]] show ?thesis
  proof
    assume "getDbConnection fails c = (Inl e, c')"
    from getDbConnection_cases[OF this] show ?thesis by simp
  next
    assume "\<exists>x c1. getDbConnection fails c = (Inr x, c1) \<and>
       db_catch (review_try fails now did st (body event) usr)
         (\<lambda>error. db_bind (db_rollback fails) (\<lambda>_. db_throw error)) c1 = (Inl e, c')"
    then obtain x c1 where g: "getDbConnection fails c = (Inr x, c1)"
      and k: "db_catch (review_try fails now did st (body event) usr)
         (\<lambda>error. db_bind (db_rollback fails) (\<lambda>_. db_throw error)) c1 = (Inl e, c')" by blast
    from getDbConnection_cases[OF g] c have c1: "committed c1 = committed c" "tx c1 = None" by simp_all
    obtain r2 c2 where t: "review_try fails now did st (body event) usr c1 = (r2, c2)"
      by (cases "review_try fails now did st (body event) usr c1")
    show ?thesis
    proof (cases r2)
      case (Inl e2)
      with t k have "(db_bind (db_rollback fails) (\<lambda>_. db_throw e2) :: response db) c2 = (Inl e, c')"
        by (simp add: db_catch_def)
      from rollback_throw[OF this] review_try_Inl[OF c1(2) t[unfolded Inl]] c1 show ?thesis by simp
    next
      case (Inr r)
      with t k show ?thesis by (simp add: db_catch_def)
    qed
  qed
qed

lemma handle_valid_Inr:
  assumes v: "review_valid event usr" and c: "tx c = None"
    and run: "handleReviewDocument fails now event usr c = (Inr r, c')"
  shows "\<exists>did st c0. documentId event = Some did \<and> body_status (body event) = Some st \<and>
           tx c0 = None \<and> committed c0 = committed c \<and>
           review_try fails now did st (body event) usr c0 = (Inr r, c')"
proof -
  from handle_valid[OF v] obtain did st where
    ev: "documentId event = Some did" "body_status (body event) = Some st" and
    h: "handleReviewDocument fails now event usr =
             db_bind (getDbConnection fails) (\<lambda>_.
               db_catch (review_try fails now did st (body event) usr)
                 (\<lambda>error. db_bind (db_rollback fails) (\<lambda>_. db_throw error)))" by blast
  from db_bind_Inr[OF run[unfolded h]] obtain x c1 where g: "getDbConnection fails c = (Inr x, c1)"
      and k: "db_catch (review_try fails now did st (body event) usr)
         (\<lambda>error. db_bind (db_rollback fails) (\<lambda>_. db_throw error)) c1 = (Inr r, c')" by blast
  from getDbConnection_cases[OF g] c have c1: "committed c1 = committed c" "tx c1 = None" by simp_all
  obtain r2 c2 where t: "review_try fails now did st (body event) usr c1 = (r2, c2)"
    by (cases "review_try fails now did st (body event) usr c1")
  have "review_try fails now did st (body event) usr c1 = (Inr r, c')"
  proof (cases r2)
    case (Inl e2)
    with t k have "(db_bind (db_rollback fails) (\<lambda>_. db_throw e2) :: response db) c2 = (Inr r, c')"
      by (simp add: db_catch_def)
    from rollback_throw[OF this] show ?thesis by simp
  next
    case (Inr r')
    with t k show ?thesis by (simp add: db_catch_def)
  qed
  with ev c1 show ?thesis by blast
qed

lemma visible_tx: "tx c = Some w \<Longrightarrow> visible c = w"
  by (simp add: visible_def)

lemma review_success:
  assumes c: "tx c = None" and run: "handleReviewDocument fails now event usr c = (Inr r, c')"
    and ok: "statusCode r = 200"
  shows "\<exists>did st document. documentId event = Some did \<and> body_status (body event) = Some st \<and>
           review_valid event usr \<and> tx c' = None \<and>
           first_row (fst (sql_update_document_status now (review_data st (body event) usr) did
                        (committed c))) = Some document \<and>
           (if st = ''approved''
            then \<exists>c2 verificationStatus c3.
                   tx c2 \<noteq> None \<and> committed c2 = committed c \<and>
                   visible c2 =
                     (let s1 = snd (sql_update_document_status now (review_data st (body event) usr) did
                                (committed c))
                      in case columnMap (r_document_type document) of
                           None \<Rightarrow> s1
                         | Some column \<Rightarrow>
                             snd (sql_update_profile_column now column did (r_driver_id document) s1)) \<and>
                   checkAllDocumentsApproved fails now (r_driver_id document) c2
                     = (Inr verificationStatus, c3) \<and>
                   committed c' = visible c3 \<and>
                   resp_body r = Reviewed document (Some verificationStatus)
            else committed c' = snd (sql_update_document_status now (review_data st (body event) usr) did
                                 (committed c)) \<and>
                 resp_body r = Reviewed document None)"
proof -
  have v: "review_valid event usr"
  proof (rule ccontr)
    assume "\<not> review_valid event usr"
    from handle_invalid[OF this, of fails now c] run ok show False by auto
  qed
  from handle_valid_Inr[OF v c run] obtain did st c0 where
    ev: "documentId event = Some did" "body_status (body event) = Some st"
    and c0: "tx c0 = None" "committed c0 = committed c"
    and t: "review_try fails now did st (body event) usr c0 = (Inr r, c')" by blast
  from review_try_Inr[OF c0(1) t] obtain cb document c1 where
    cb: "tx cb = Some (committed c0)"
    and u: "updateDocumentStatus fails now did (review_data st (body event) usr) cb = (Inr document, c1)"
    and c': "tx c' = None"
    and rest: "if st = ''approved''
            then \<exists>c2 verificationStatus c3.
                   updateDriverProfile fails now (r_driver_id document) (r_document_type document) did c1
                     = (Inr (), c2) \<and> tx c2 \<noteq> None \<and> committed c2 = committed c0 \<and>
                   checkAllDocumentsApproved fails now (r_driver_id document) c2
                     = (Inr verificationStatus, c3) \<and> tx c3 \<noteq> None \<and> committed c3 = committed c0 \<and>
                   committed c' = visible c3 \<and>
                   r = \<lparr>statusCode = 200, resp_body = Reviewed document (Some verificationStatus)\<rparr>
            else committed c' = visible c1 \<and>
                 r = \<lparr>statusCode = 200, resp_body = Reviewed document None\<rparr>"
    by blast
  from updateDocumentStatus_Inr[OF u] visible_tx[OF cb] c0
  have v1: "visible c1 = snd (sql_update_document_status now (review_data st (body event) usr) did (committed c))"
    and doc: "first_row (fst (sql_update_document_status now (review_data st (body event) usr) did
                        (committed c))) = Some document" by simp_all
  show ?thesis
  proof (cases "st = ''approved''")
    case False
    with rest v1 doc ev v c' show ?thesis by auto
  next
    case True
    with rest obtain c2 verificationStatus c3 where
      p: "updateDriverProfile fails now (r_driver_id document) (r_document_type document) did c1 = (Inr (), c2)"
      and c2: "tx c2 \<noteq> None" "committed c2 = committed c0"
      and k: "checkAllDocumentsApproved fails now (r_driver_id document) c2 = (Inr verificationStatus, c3)"
      and fin: "committed c' = visible c3"
         "r = \<lparr>statusCode = 200, resp_body = Reviewed document (Some verificationStatus)\<rparr>"
      by auto
    from updateDriverProfile_Inr[OF p] v1
    have "visible c2 = (let s1 = snd (sql_update_document_status now (review_data st (body event) usr) did
                                (committed c))
                      in case columnMap (r_document_type document) of
                           None \<Rightarrow> s1
                         | Some column \<Rightarrow>
                             snd (sql_update_profile_column now column did (r_driver_id document) s1))"
      by (simp add: Let_def split: option.splits)
    with True ev v c' doc c2 c0 k fin show ?thesis by auto
  qed
qed

text \<open>
  A review call that starts on a connection with no open transaction either answers 200,
  and then the transaction is closed and the committed store holds the whole update: the
  document update and, for status approved, the profile reference and the result of the
  recomputation, which ran inside the transaction on the owning driver and whose verdict is
  in the response; or it does not answer 200, and then the committed store is unchanged.
  Nothing is said here about the transaction after a failed call: the handlers do not
  keep the connection outside a transaction, as the evaluation below shows.
\<close>

lemma review_outside_transaction:
  assumes "tx c = None" and "handleReviewDocument fails now event usr c = (res, c')"
  shows "(\<exists>r did st document.
            res = Inr r \<and> statusCode r = 200 \<and> tx c' = None \<and>
            documentId event = Some did \<and> body_status (body event) = Some st \<and>
            first_row (fst (sql_update_document_status now (review_data st (body event) usr) did
                         (committed c))) = Some document \<and>
            (if st = ''approved''
             then \<exists>c2 verificationStatus c3.
                   tx c2 \<noteq> None \<and> committed c2 = committed c \<and>
                   visible c2 =
                     (let s1 = snd (sql_update_document_status now (review_data st (body event) usr) did
                                (committed c))
                      in case columnMap (r_document_type document) of
                           None \<Rightarrow> s1
                         | Some column \<Rightarrow>
                             snd (sql_update_profile_column now column did (r_driver_id document) s1)) \<and>
                   checkAllDocumentsApproved fails now (r_driver_id document) c2
                     = (Inr verificationStatus, c3) \<and>
                   committed c' = visible c3 \<and>
                   resp_body r = Reviewed document (Some verificationStatus)
             else committed c' = snd (sql_update_document_status now (review_data st (body event) usr)
                                   did (committed c)) \<and>
                  resp_body r = Reviewed document None))
         \<or> ((\<forall>r. res = Inr r \<longrightarrow> statusCode r \<noteq> 200) \<and> committed c' = committed c)"
proof (cases res)
  case (Inl e)
  have "committed c' = committed c"
  proof (cases "review_valid event usr")
    case True
    from handle_valid_Inl[OF True assms(1) assms(2)[unfolded Inl]] show ?thesis .
  next
    case False
    from handle_invalid[OF False, of fails now c] assms(2) Inl show ?thesis by auto
  qed
  with Inl show ?thesis by simp
next
  case (Inr r)
  show ?thesis
  proof (cases "statusCode r = 200")
    case True
    from review_success[OF assms(1) assms(2)[unfolded Inr] True] Inr True
    show ?thesis by (intro disjI1) blast
  next
    case False
    have "\<not> review_valid event usr"
    proof
      assume v: "review_valid event usr"
      from handle_valid_Inr[OF v assms(1) assms(2)[unfolded Inr]] obtain did st c0 where
        c0: "tx c0 = None" and t: "review_try fails now did st (body event) usr c0 = (Inr r, c')"
        by blast
      from review_try_Inr[OF c0 t] have "statusCode r = 200" by (auto split: if_splits)
      with False show False by simp
    qed
    from handle_invalid[OF this, of fails now c] assms(2) Inr have "c' = c" by auto
    with Inr False show ?thesis by simp
  qed
qed

lemma ex_conn1_tx: "tx ex_conn1 = None"
  by (simp add: ex_conn1_docs)

lemma ex_approve_ok:
  "\<exists>r. fst (handleReviewDocument no_faults 2 (ex_review ''approved'' None None) ex_admin ex_conn1) = Inr r \<and>
       statusCode r = 200"
  by (simp add: ex_conn1_docs ex_review_def ex_admin_def review_defs monad_defs)

lemma ex_approve_fault:
  "\<exists>e. fst (handleReviewDocument (fail_at 6) 2 (ex_review ''approved'' None None) ex_admin ex_conn1) = Inl e"
  by (simp add: ex_conn1_docs ex_review_def ex_admin_def review_defs monad_defs fail_at_def)

text \<open>
  For instance, the approval of d1 without faults commits and closes the transaction; the
  same request with a fault in the recomputation's SELECT leaves the committed store as
  it was.
\<close>

lemma review_outside_transaction_example:
  "tx ex_conn1 = None \<and>
   tx (snd (handleReviewDocument no_faults 2 (ex_review ''approved'' None None) ex_admin ex_conn1)) = None \<and>
   committed (snd (handleReviewDocument (fail_at 6) 2 (ex_review ''approved'' None None) ex_admin ex_conn1))
     = committed ex_conn1"
proof -
  have a: "tx (snd (handleReviewDocument no_faults 2 (ex_review ''approved'' None None) ex_admin ex_conn1)) = None"
    using review_outside_transaction[OF ex_conn1_tx, of no_faults 2 "ex_review ''approved'' None None" ex_admin
        "fst (handleReviewDocument no_faults 2 (ex_review ''approved'' None None) ex_admin ex_conn1)"
        "snd (handleReviewDocument no_faults 2 (ex_review ''approved'' None None) ex_admin ex_conn1)"]
      ex_approve_ok by auto
  have b: "committed (snd (handleReviewDocument (fail_at 6) 2 (ex_review ''approved'' None None) ex_admin ex_conn1))
     = committed ex_conn1"
    using review_outside_transaction[OF ex_conn1_tx, of "fail_at 6" 2 "ex_review ''approved'' None None" ex_admin
        "fst (handleReviewDocument (fail_at 6) 2 (ex_review ''approved'' None None) ex_admin ex_conn1)"
        "snd (handleReviewDocument (fail_at 6) 2 (ex_review ''approved'' None None) ex_admin ex_conn1)"]
      ex_approve_fault by auto
  from a b ex_conn1_tx show ?thesis by simp
qed

lemma ex_two_docs_eval:
  "ex_two_docs = \<lparr>committed = \<lparr>driver_documents =
       [\<lparr>doc_id = ''d1'', driver_id = ''u1'', document_type = ''license'',
           status = ''pending'', verified_at = None, verified_by = None,
           rejection_reason = None, doc_notes = None,
           document_number = None, issuing_authority = None,
           issue_date = None, expiry_date = None,
           expiration_notified_at = None, created_at = 1, updated_at = 1,
           file_ref =
             \<lparr>tenant_id = None, document_category = ''identity'',
                s3_key = ''key1'', s3_bucket = ''bucket'', file_name = ''a.pdf'',
                file_size_bytes = 0, mime_type = ''application/pdf''\<rparr>\<rparr>,
        \<lparr>doc_id = ''d2'', driver_id = ''u1'', document_type = ''insurance'',
           status = ''pending'', verified_at = None, verified_by = None,
           rejection_reason = None, doc_notes = None,
           document_number = None, issuing_authority = None,
           issue_date = None, expiry_date = None,
           expiration_notified_at = None, created_at = 2, updated_at = 2,
           file_ref =
             \<lparr>tenant_id = None, document_category = ''vehicle'',
                s3_key = ''key2'', s3_bucket = ''bucket'', file_name = ''b.pdf'',
                file_size_bytes = 0, mime_type = ''application/pdf''\<rparr>\<rparr>],
       driver_profiles = []\<rparr>, tx = None, nqueries = 4\<rparr>"
  by (simp add: ex_two_docs_def ex_conn1_docs ex_upload2_def ex_driver_def upload_defs monad_defs)

lemma ex_hung_answer:
  "fst (review_handler (fails_in [8, 9]) 3 (ex_review ''approved'' None None) ex_admin ex_two_docs)
     = Inr \<lparr>statusCode = 500, resp_body = ErrorBody ''Internal server error''\<rparr> \<and>
   committed ex_hung = committed ex_two_docs \<and>
   map status (driver_documents (committed ex_hung)) = [''pending'', ''pending''] \<and>
   map status (driver_documents (visible ex_hung)) = [''approved'', ''pending''] \<and>
   tx ex_hung \<noteq> None"
  by (simp add: ex_hung_def ex_two_docs_eval ex_review_def ex_admin_def review_defs monad_defs
        fails_in_def visible_def)

lemma ex_hung_next:
  "fst (review_handler no_faults 4 (ex_review_d2 ''processing'') ex_admin ex_hung)
     = Inr \<lparr>statusCode = 200, resp_body = Reviewed
         \<lparr>r_id = ''d2'', r_driver_id = ''u1'', r_document_type = ''insurance'',
          r_status = ''processing'', r_verified_at = None, r_rejection_reason = None,
          r_notes = None, r_created_at = 2, r_updated_at = 4\<rparr> None\<rparr> \<and>
   map status (driver_documents (committed
      (snd (review_handler no_faults 4 (ex_review_d2 ''processing'') ex_admin ex_hung))))
     = [''approved'', ''processing'']"
  by (simp add: ex_hung_def ex_two_docs_eval ex_review_def ex_review_d2_def ex_admin_def
        review_defs monad_defs fails_in_def)

lemma ex_rolled_back_next:
  "fst (review_handler (fail_at 8) 3 (ex_review ''approved'' None None) ex_admin ex_two_docs)
     = Inr \<lparr>statusCode = 500, resp_body = ErrorBody ''Internal server error''\<rparr> \<and>
   tx ex_rolled_back = None \<and>
   map status (driver_documents (committed
      (snd (review_handler no_faults 4 (ex_review_d2 ''processing'') ex_admin ex_rolled_back))))
     = [''pending'', ''processing'']"
  by (simp add: ex_rolled_back_def ex_two_docs_eval ex_review_def ex_review_d2_def ex_admin_def
        review_defs monad_defs fail_at_def)

lemma ex_hung_reachable: "reachable any_review ex_hung"
  unfolding ex_hung_def ex_two_docs_def
  by (intro reachable.review reachable.upload ex_conn1_reachable) (simp add: any_review_def)

text \<open>
  Claim C2 at a failing input. The driver has two pending documents, d1 and d2. An
  administrator approves d1 at time 3; the recomputation's SELECT (round trip 8) throws, the
  catch block issues ROLLBACK (round trip 9) and that throws too. The handler answers 500
  and the committed store is as before, but the cached connection is still inside the
  transaction that holds the approval of d1. The next call, a review of d2 to processing at
  time 4 with no fault, answers 200, and its COMMIT makes the approval of d1 permanent: the
  writes of the call that answered 500 are visible. When only round trip 8 throws, the
  ROLLBACK closes the transaction and after the same second call d1 is still pending.
\<close>

theorem failed_review_committed_later:
  "reachable any_review ex_hung \<and>
   fst (review_handler (fails_in [8, 9]) 3 (ex_review ''approved'' None None) ex_admin ex_two_docs)
     = Inr \<lparr>statusCode = 500, resp_body = ErrorBody ''Internal server error''\<rparr> \<and>
   committed ex_hung = committed ex_two_docs \<and>
   map status (driver_documents (committed ex_hung)) = [''pending'', ''pending''] \<and>
   tx ex_hung \<noteq> None \<and>
   fst (review_handler no_faults 4 (ex_review_d2 ''processing'') ex_admin ex_hung)
     = Inr \<lparr>statusCode = 200, resp_body = Reviewed
         \<lparr>r_id = ''d2'', r_driver_id = ''u1'', r_document_type = ''insurance'',
          r_status = ''processing'', r_verified_at = None, r_rejection_reason = None,
          r_notes = None, r_created_at = 2, r_updated_at = 4\<rparr> None\<rparr> \<and>
   map status (driver_documents (committed
      (snd (review_handler no_faults 4 (ex_review_d2 ''processing'') ex_admin ex_hung))))
     = [''approved'', ''processing''] \<and>
   tx ex_rolled_back = None \<and>
   map status (driver_documents (committed
      (snd (review_handler no_faults 4 (ex_review_d2 ''processing'') ex_admin ex_rolled_back))))
     = [''pending'', ''processing'']"
  using ex_hung_reachable ex_hung_answer ex_hung_next ex_rolled_back_next
  by (intro conjI) (elim conjE, assumption)+

text \<open>
  Claim C7. A review request with status rejected and no rejection reason is answered
  with a client error (400 for an administrator, with the validation message when the
  document id is present; 403 otherwise) and returns the connection as it was: no
  statement is issued and no record changes.
\<close>

theorem reject_without_reason:
  assumes "body_status (body event) = Some ''rejected''"
    and "\<not> truthy (rejectionReason (body event))"
  shows "\<exists>r. handleReviewDocument fails now event usr c = (Inr r, c) \<and>
             review_handler fails now event usr c = (Inr r, c) \<and>
             (statusCode r = 400 \<or> statusCode r = 403) \<and>
             (isAdmin usr \<longrightarrow> statusCode r = 400) \<and>
             (isAdmin usr \<and> truthy (documentId event) \<longrightarrow>
                resp_body r = ErrorBody ''rejectionReason is required when status is rejected'')"
  using assms
  by (auto simp: handleReviewDocument_def review_handler_def db_catch_def db_return_def
        validStatuses_def truthy_def split: option.splits)

text \<open>Witness for C7: an administrator rejects d1 without a reason.\<close>

theorem reject_without_reason_witness:
  "body_status (body (ex_review ''rejected'' None None)) = Some ''rejected'' \<and>
   \<not> truthy (rejectionReason (body (ex_review ''rejected'' None None))) \<and>
   isAdmin ex_admin \<and> truthy (documentId (ex_review ''rejected'' None None)) \<and>
   snd (handleReviewDocument no_faults 2 (ex_review ''rejected'' None None) ex_admin ex_conn1) = ex_conn1 \<and>
   statusCode (projr (fst (handleReviewDocument no_faults 2 (ex_review ''rejected'' None None) ex_admin ex_conn1))) = 400"
proof -
  have h: "body_status (body (ex_review ''rejected'' None None)) = Some ''rejected''"
    "\<not> truthy (rejectionReason (body (ex_review ''rejected'' None None)))"
    "isAdmin ex_admin" "truthy (documentId (ex_review ''rejected'' None None))"
    by (simp_all add: ex_review_def truthy_def ex_admin_def)
  from reject_without_reason[OF h(1,2), of no_faults 2 ex_admin ex_conn1] h
  show ?thesis by auto
qed


section \<open>The fields a review writes\<close>

lemma docs_update_status:
  "driver_documents (snd (sql_update_document_status now rd did s)) =
     map (\<lambda>d. if doc_id d = did then set_review now rd d else d) (driver_documents s)"
  by (simp add: sql_update_document_status_def)

lemma first_row_update_status:
  "first_row (fst (sql_update_document_status now rd did s)) = Some document \<Longrightarrow>
     \<exists>d \<in> set (driver_documents s). doc_id d = did"
proof -
  assume "first_row (fst (sql_update_document_status now rd did s)) = Some document"
  then have "filter (\<lambda>d. doc_id d = did) (driver_documents s) \<noteq> []"
    by (auto simp: sql_update_document_status_def first_row_def)
  then show ?thesis by (simp add: filter_empty_conv)
qed

lemma check_docs:
  "checkAllDocumentsApproved fails now driverId c = (Inr vs, c') \<Longrightarrow>
     driver_documents (visible c') = driver_documents (visible c)"
  by (drule check_Inr) (auto split: if_splits)

lemma review_documents:
  assumes c: "tx c = None" and run: "handleReviewDocument fails now event usr c = (Inr r, c')"
    and ok: "statusCode r = 200"
  shows "\<exists>did st. documentId event = Some did \<and> body_status (body event) = Some st \<and>
           review_valid event usr \<and>
           driver_documents (committed c') =
             map (\<lambda>d. if doc_id d = did then set_review now (review_data st (body event) usr) d else d)
               (driver_documents (committed c)) \<and>
           (\<exists>d \<in> set (driver_documents (committed c)). doc_id d = did)"
proof -
  from review_success[OF c run ok] obtain did st document where
    ev: "documentId event = Some did" "body_status (body event) = Some st" "review_valid event usr"
    and fr: "first_row (fst (sql_update_document_status now (review_data st (body event) usr) did
                        (committed c))) = Some document"
    and rest: "if st = ''approved''
            then \<exists>c2 verificationStatus c3.
                   tx c2 \<noteq> None \<and> committed c2 = committed c \<and>
                   visible c2 =
                     (let s1 = snd (sql_update_document_status now (review_data st (body event) usr) did
                                (committed c))
                      in case columnMap (r_document_type document) of
                           None \<Rightarrow> s1
                         | Some column \<Rightarrow>
                             snd (sql_update_profile_column now column did (r_driver_id document) s1)) \<and>
                   checkAllDocumentsApproved fails now (r_driver_id document) c2
                     = (Inr verificationStatus, c3) \<and>
                   committed c' = visible c3 \<and>
                   resp_body r = Reviewed document (Some verificationStatus)
            else committed c' = snd (sql_update_document_status now (review_data st (body event) usr) did
                                 (committed c)) \<and>
                 resp_body r = Reviewed document None"
    by blast
  have "driver_documents (committed c') =
          driver_documents (snd (sql_update_document_status now (review_data st (body event) usr) did
                                 (committed c)))"
  proof (cases "st = ''approved''")
    case False
    with rest show ?thesis by simp
  next
    case True
    with rest obtain c2 verificationStatus c3 where
      v2: "visible c2 =
                     (let s1 = snd (sql_update_document_status now (review_data st (body event) usr) did
                                (committed c))
                      in case columnMap (r_document_type document) of
                           None \<Rightarrow> s1
                         | Some column \<Rightarrow>
                             snd (sql_update_profile_column now column did (r_driver_id document) s1))"
      and k: "checkAllDocumentsApproved fails now (r_driver_id document) c2 = (Inr verificationStatus, c3)"
      and fin: "committed c' = visible c3" by auto
    from v2 have "driver_documents (visible c2) =
          driver_documents (snd (sql_update_document_status now (review_data st (body event) usr) did
                                 (committed c)))"
      by (simp add: Let_def split: option.splits)
    with check_docs[OF k] fin show ?thesis by simp
  qed
  with ev first_row_update_status[OF fr] show ?thesis by (simp add: docs_update_status)
qed

text \<open>
  Claim C10. After every successful review call, each document with the reviewed id has
  its notes and its rejection reason overwritten by the request's value, NULL when the
  value is omitted (or empty), while document number, issuing authority, issue date and
  expiry date keep the stored value when the request omits them; other documents are
  unchanged.
\<close>

theorem review_overwrites_notes_and_reason:
  assumes "tx c = None" and "handleReviewDocument fails now event usr c = (Inr r, c')"
    and "statusCode r = 200"
  shows "\<exists>did. documentId event = Some did \<and>
           (\<exists>d \<in> set (driver_documents (committed c)). doc_id d = did) \<and>
           list_all2 (\<lambda>d d'. doc_id d' = doc_id d \<and>
                (if doc_id d = did
                 then doc_notes d' = or_null (body_notes (body event)) \<and>
                      rejection_reason d' = or_null (rejectionReason (body event)) \<and>
                      (body_notes (body event) = None \<longrightarrow> doc_notes d' = None) \<and>
                      (rejectionReason (body event) = None \<longrightarrow> rejection_reason d' = None) \<and>
                      document_number d' =
                        coalesce (or_null (documentNumber (body event))) (document_number d) \<and>
                      issuing_authority d' =
                        coalesce (or_null (issuingAuthority (body event))) (issuing_authority d) \<and>
                      issue_date d' = coalesce (issueDate (body event)) (issue_date d) \<and>
                      expiry_date d' = coalesce (expiryDate (body event)) (expiry_date d)
                 else d' = d))
             (driver_documents (committed c)) (driver_documents (committed c'))"
proof -
  from review_documents[OF assms] obtain did st where
    ev: "documentId event = Some did"
    and docs: "driver_documents (committed c') =
             map (\<lambda>d. if doc_id d = did then set_review now (review_data st (body event) usr) d else d)
               (driver_documents (committed c))"
    and ex: "\<exists>d \<in> set (driver_documents (committed c)). doc_id d = did" by blast
  show ?thesis
    using ev ex unfolding docs
    by (auto simp: list_all2_map2 list_all2_same set_review_def review_data_def or_null_def truthy_def)
qed

lemma ex_rejected_tx: "tx ex_rejected = None"
  by (simp add: ex_rejected_def ex_conn1_docs ex_review_def ex_admin_def review_defs monad_defs)

lemma ex_rejected_eval:
  "ex_rejected = \<lparr>committed = \<lparr>driver_documents =
       [\<lparr>doc_id = ''d1'', driver_id = ''u1'', document_type = ''license'',
           status = ''rejected'', verified_at = Some 2, verified_by = Some ''admin1'',
           rejection_reason = Some ''blurry'', doc_notes = Some ''retake'',
           document_number = None, issuing_authority = None,
           issue_date = None, expiry_date = None,
           expiration_notified_at = None, created_at = 1, updated_at = 2,
           file_ref =
             \<lparr>tenant_id = None, document_category = ''identity'',
                s3_key = ''key1'', s3_bucket = ''bucket'', file_name = ''a.pdf'',
                file_size_bytes = 0, mime_type = ''application/pdf''\<rparr>\<rparr>],
       driver_profiles = []\<rparr>, tx = None, nqueries = 6\<rparr>"
  by (simp add: ex_rejected_def ex_conn1_docs ex_review_def ex_admin_def review_defs monad_defs)

lemma ex_repend_ok:
  "\<exists>r. handleReviewDocument no_faults 3 (ex_review ''pending'' None None) ex_admin ex_rejected
         = (Inr r, snd (handleReviewDocument no_faults 3 (ex_review ''pending'' None None) ex_admin ex_rejected)) \<and>
       statusCode r = 200"
  by (simp add: ex_rejected_eval ex_review_def ex_admin_def review_defs monad_defs)

lemma list_all2_singleton_hd: "list_all2 P [x] ys \<Longrightarrow> P x (hd ys)"
  by (auto simp: list_all2_Cons1)

text \<open>
  Witness for C10: d1 is rejected with a reason and a note; a later review that omits
  both leaves both NULL.
\<close>

theorem review_overwrites_notes_and_reason_witness:
  "tx ex_rejected = None \<and>
   doc_notes (hd (driver_documents (committed ex_rejected))) = Some ''retake'' \<and>
   rejection_reason (hd (driver_documents (committed ex_rejected))) = Some ''blurry'' \<and>
   doc_notes (hd (driver_documents (committed (snd (handleReviewDocument no_faults 3
       (ex_review ''pending'' None None) ex_admin ex_rejected))))) = None \<and>
   rejection_reason (hd (driver_documents (committed (snd (handleReviewDocument no_faults 3
       (ex_review ''pending'' None None) ex_admin ex_rejected))))) = None"
proof -
  from ex_repend_ok obtain r where
    run: "handleReviewDocument no_faults 3 (ex_review ''pending'' None None) ex_admin ex_rejected
         = (Inr r, snd (handleReviewDocument no_faults 3 (ex_review ''pending'' None None) ex_admin ex_rejected))"
    and ok: "statusCode r = 200" by blast
  obtain x where d: "driver_documents (committed ex_rejected) = [x]" "doc_id x = ''d1''"
    by (simp add: ex_rejected_eval)
  from review_overwrites_notes_and_reason[OF ex_rejected_tx run ok] obtain did where
    ev: "documentId (ex_review ''pending'' None None) = Some did"
    and la: "list_all2 (\<lambda>d d'. doc_id d' = doc_id d \<and>
                (if doc_id d = did
                 then doc_notes d' = or_null (body_notes (body (ex_review ''pending'' None None))) \<and>
                      rejection_reason d' = or_null (rejectionReason (body (ex_review ''pending'' None None))) \<and>
                      (body_notes (body (ex_review ''pending'' None None)) = None \<longrightarrow> doc_notes d' = None) \<and>
                      (rejectionReason (body (ex_review ''pending'' None None)) = None \<longrightarrow> rejection_reason d' = None) \<and>
                      document_number d' =
                        coalesce (or_null (documentNumber (body (ex_review ''pending'' None None)))) (document_number d) \<and>
                      issuing_authority d' =
                        coalesce (or_null (issuingAuthority (body (ex_review ''pending'' None None)))) (issuing_authority d) \<and>
                      issue_date d' = coalesce (issueDate (body (ex_review ''pending'' None None))) (issue_date d) \<and>
                      expiry_date d' = coalesce (expiryDate (body (ex_review ''pending'' None None))) (expiry_date d)
                 else d' = d))
             (driver_documents (committed ex_rejected))
             (driver_documents (committed (snd (handleReviewDocument no_faults 3
                 (ex_review ''pending'' None None) ex_admin ex_rejected))))"
    by blast
  from ev have did: "did = ''d1''" by (simp add: ex_review_def)
  from list_all2_singleton_hd[OF la[unfolded d(1)]] d(2) did
  have "doc_notes (hd (driver_documents (committed (snd (handleReviewDocument no_faults 3
       (ex_review ''pending'' None None) ex_admin ex_rejected))))) = None \<and>
   rejection_reason (hd (driver_documents (committed (snd (handleReviewDocument no_faults 3
       (ex_review ''pending'' None None) ex_admin ex_rejected))))) = None"
    by (simp add: ex_review_def or_null_def truthy_def)
  with ex_rejected_tx ex_rejected_docs show ?thesis by simp
qed

section \<open>Status transitions\<close>

lemmas sweep_defs = sweep_handler_def sweep_step2_def sweep_step3_def sweep_step4_def
  sweep_failed_def sweep_completed_def markExpiredDocuments_def sql_mark_expired_def
  past_expiry_def returning_expired_def set_expired_def new_Set_def
  updateDriverProfilesForExpiredDocs_def sql_update_profile_incomplete_def set_incomplete_def
  returning_incomplete_def findExpiringDocuments_def sql_find_expiring_def expiring_soon_def
  expiry_key_def select_expiring_def markNotificationSent_def sql_mark_notified_def
  sendExpirationNotifications_def sql_select_approved_def requiredDocs_def first_row_def

lemma ex_approved_eval:
  "ex_approved = \<lparr>committed = \<lparr>driver_documents =
       [\<lparr>doc_id = ''d1'', driver_id = ''u1'', document_type = ''license'',
           status = ''approved'', verified_at = Some 2, verified_by = Some ''admin1'',
           rejection_reason = None, doc_notes = None,
           document_number = None, issuing_authority = None,
           issue_date = None, expiry_date = Some 10,
           expiration_notified_at = None, created_at = 1, updated_at = 2,
           file_ref =
             \<lparr>tenant_id = None, document_category = ''identity'',
                s3_key = ''key1'', s3_bucket = ''bucket'', file_name = ''a.pdf'',
                file_size_bytes = 0, mime_type = ''application/pdf''\<rparr>\<rparr>],
       driver_profiles = []\<rparr>, tx = None, nqueries = 8\<rparr>"
  by (simp add: ex_approved_def ex_conn1_docs ex_approve_until_def ex_admin_def review_defs monad_defs)

lemma ex_expired_eval:
  "ex_expired = \<lparr>committed = \<lparr>driver_documents =
       [\<lparr>doc_id = ''d1'', driver_id = ''u1'', document_type = ''license'',
           status = ''expired'', verified_at = Some 2, verified_by = Some ''admin1'',
           rejection_reason = None, doc_notes = None,
           document_number = None, issuing_authority = None,
           issue_date = None, expiry_date = Some 10,
           expiration_notified_at = None, created_at = 1, updated_at = 3,
           file_ref =
             \<lparr>tenant_id = None, document_category = ''identity'',
                s3_key = ''key1'', s3_bucket = ''bucket'', file_name = ''a.pdf'',
                file_size_bytes = 0, mime_type = ''application/pdf''\<rparr>\<rparr>],
       driver_profiles = []\<rparr>, tx = None, nqueries = 13\<rparr>"
  by (simp add: ex_expired_def ex_approved_eval sweep_defs monad_defs)

lemma sweep_step_refl: "list_all2 sweep_step xs xs"
  by (simp add: list_all2_same sweep_step_def)

lemma sweep_step_mark_expired:
  assumes "list_all2 sweep_step xs (driver_documents s)"
  shows "list_all2 sweep_step xs (driver_documents (snd (sql_mark_expired today now s)))"
proof -
  have "list_all2 (\<lambda>x d. sweep_step x (if past_expiry today d then set_expired now d else d))
          xs (driver_documents s)"
    using assms
    by (rule list_all2_mono) (simp add: sweep_step_def set_expired_def past_expiry_def)
  then show ?thesis by (simp add: sql_mark_expired_def list_all2_map2)
qed

lemma sweep_step_mark_notified:
  assumes "list_all2 sweep_step xs (driver_documents s)"
  shows "list_all2 sweep_step xs (driver_documents (snd (sql_mark_notified now ids s)))"
proof -
  have "list_all2 (\<lambda>x d. sweep_step x (if doc_id d \<in> set ids
                        then d\<lparr>expiration_notified_at := Some now, updated_at := now\<rparr> else d))
          xs (driver_documents s)"
    using assms by (rule list_all2_mono) (simp add: sweep_step_def)
  then show ?thesis by (simp add: sql_mark_notified_def list_all2_map2)
qed

lemma sweep_handler_steps:
  assumes "tx c = None"
  shows "list_all2 sweep_step (driver_documents (committed c))
           (driver_documents (committed (snd (sweep_handler fails today now c))))"
proof -
  let ?P = "\<lambda>s. list_all2 sweep_step (driver_documents (committed c)) (driver_documents s)"
  have "preserves ?P (sweep_handler fails today now)"
  proof (rule preserves_sweep_handler[where P="?P"])
    show "\<And>s s'. driver_documents s' = driver_documents s \<Longrightarrow> ?P s \<Longrightarrow> ?P s'" by simp
    show "\<And>s. ?P s \<Longrightarrow> ?P (snd (sql_mark_expired today now s))" by (rule sweep_step_mark_expired)
    show "\<And>s ids. ?P s \<Longrightarrow> ?P (snd (sql_mark_notified now ids s))" by (rule sweep_step_mark_notified)
  qed
  moreover have "conn_ok ?P c" using assms by (simp add: conn_ok_def sweep_step_refl)
  ultimately have "conn_ok ?P (snd (sweep_handler fails today now c))"
    by (simp add: preserves_def)
  then show ?thesis by (simp add: conn_ok_def)
qed

lemma upload_keeps_documents:
  assumes "tx c = None"
  shows "take (length (driver_documents (committed c)))
           (driver_documents (committed (snd (upload_handler fails new_id bucket s3Key now b usr c))))
         = driver_documents (committed c)"
  using assms
  by (auto simp: upload_handler_def handleUploadRequest_def createDocumentRecord_def
        sql_insert_document_def monad_defs split: option.splits)

text \<open>
  Claim C5, as amended. The expiry sweep never changes the status of a document that is
  not approved (so it never moves a document out of expired), and changes an approved one
  only to expired; an upload changes no existing document. The review operation sets the
  status of the reviewed document to the requested status whatever the current one, so it
  does move documents out of expired and approved documents back to pending.
\<close>

theorem status_transitions:
  assumes "tx c = None"
  shows "list_all2 sweep_step (driver_documents (committed c))
           (driver_documents (committed (snd (sweep_handler fails today now c)))) \<and>
         take (length (driver_documents (committed c)))
           (driver_documents (committed (snd (upload_handler fails new_id bucket s3Key now ub driver c))))
           = driver_documents (committed c) \<and>
         (\<forall>r c'. handleReviewDocument fails now event usr c = (Inr r, c') \<and> statusCode r = 200 \<longrightarrow>
            (\<exists>did st. documentId event = Some did \<and> body_status (body event) = Some st \<and>
               list_all2 (\<lambda>d d'. if doc_id d = did then status d' = st else d' = d)
                 (driver_documents (committed c)) (driver_documents (committed c'))))"
proof (intro conjI allI impI)
  show "list_all2 sweep_step (driver_documents (committed c))
           (driver_documents (committed (snd (sweep_handler fails today now c))))"
    by (rule sweep_handler_steps[OF assms])
  show "take (length (driver_documents (committed c)))
           (driver_documents (committed (snd (upload_handler fails new_id bucket s3Key now ub driver c))))
           = driver_documents (committed c)"
    by (rule upload_keeps_documents[OF assms])
next
  fix r c'
  assume "handleReviewDocument fails now event usr c = (Inr r, c') \<and> statusCode r = 200"
  then have run: "handleReviewDocument fails now event usr c = (Inr r, c')" and ok: "statusCode r = 200"
    by simp_all
  from review_documents[OF assms run ok] obtain did st where
    ev: "documentId event = Some did" "body_status (body event) = Some st"
    and docs: "driver_documents (committed c') =
             map (\<lambda>d. if doc_id d = did then set_review now (review_data st (body event) usr) d else d)
               (driver_documents (committed c))" by blast
  have "list_all2 (\<lambda>d d'. if doc_id d = did then status d' = st else d' = d)
                 (driver_documents (committed c)) (driver_documents (committed c'))"
    unfolding docs by (auto simp: list_all2_map2 list_all2_same set_review_def review_data_def)
  with ev show "\<exists>did st. documentId event = Some did \<and> body_status (body event) = Some st \<and>
               list_all2 (\<lambda>d d'. if doc_id d = did then status d' = st else d' = d)
                 (driver_documents (committed c)) (driver_documents (committed c'))" by blast
qed

lemma ex_reapprove:
  "\<exists>r. handleReviewDocument no_faults 4 (ex_review ''approved'' None None) ex_admin ex_expired
         = (Inr r, snd (handleReviewDocument no_faults 4 (ex_review ''approved'' None None) ex_admin ex_expired)) \<and>
       statusCode r = 200"
  by (simp add: ex_expired_eval ex_review_def ex_admin_def review_defs monad_defs)

text \<open>
  Witness for C5: on the connection where d1 has expired, the next sweep leaves it expired
  and a review with status approved makes it approved.
\<close>

theorem status_transitions_witness:
  "tx ex_expired = None \<and>
   status (hd (driver_documents (committed ex_expired))) = ''expired'' \<and>
   status (hd (driver_documents (committed (snd (sweep_handler no_faults 21 4 ex_expired))))) = ''expired'' \<and>
   status (hd (driver_documents (committed (snd (handleReviewDocument no_faults 4
      (ex_review ''approved'' None None) ex_admin ex_expired))))) = ''approved''"
proof -
  have t: "tx ex_expired = None" by (simp add: ex_expired_eval)
  obtain x where d: "driver_documents (committed ex_expired) = [x]" "doc_id x = ''d1''"
    "status x = ''expired''"
    by (simp add: ex_expired_eval)
  from ex_reapprove obtain r where
    run: "handleReviewDocument no_faults 4 (ex_review ''approved'' None None) ex_admin ex_expired
         = (Inr r, snd (handleReviewDocument no_faults 4 (ex_review ''approved'' None None) ex_admin ex_expired))"
    and ok: "statusCode r = 200" by blast
  note th = status_transitions[OF t, where fails=no_faults and today=21 and now=4
      and event="ex_review ''approved'' None None" and usr=ex_admin]
  from th have "list_all2 sweep_step [x]
           (driver_documents (committed (snd (sweep_handler no_faults 21 4 ex_expired))))"
    by (simp add: d(1))
  from list_all2_singleton_hd[OF this] d(3)
  have a: "status (hd (driver_documents (committed (snd (sweep_handler no_faults 21 4 ex_expired))))) = ''expired''"
    by (simp add: sweep_step_def)
  from th run ok obtain did st where
    ev: "documentId (ex_review ''approved'' None None) = Some did"
       "body_status (body (ex_review ''approved'' None None)) = Some st"
    and la: "list_all2 (\<lambda>d d'. if doc_id d = did then status d' = st else d' = d)
                 [x] (driver_documents (committed (snd (handleReviewDocument no_faults 4
                    (ex_review ''approved'' None None) ex_admin ex_expired))))"
    unfolding d(1)[symmetric] by blast
  from ev have "did = ''d1''" "st = ''approved''" by (simp_all add: ex_review_def)
  with list_all2_singleton_hd[OF la] d(2)
  have b: "status (hd (driver_documents (committed (snd (handleReviewDocument no_faults 4
      (ex_review ''approved'' None None) ex_admin ex_expired))))) = ''approved''" by simp
  from t d a b show ?thesis by simp
qed

text \<open>
  Counterexample to C5 as stated: the expired d1 is approved again by a review, and the
  approved d1 is moved back to pending by a review.
\<close>

theorem expired_reopened_counterexample:
  "reachable any_review ex_expired \<and>
   status (hd (driver_documents (committed ex_expired))) = ''expired'' \<and>
   status (hd (driver_documents (committed
      (snd (review_handler no_faults 4 (ex_review ''approved'' None None) ex_admin ex_expired))))) = ''approved'' \<and>
   status (hd (driver_documents (committed ex_approved))) = ''approved'' \<and>
   status (hd (driver_documents (committed
      (snd (review_handler no_faults 4 (ex_review ''pending'' None None) ex_admin ex_approved))))) = ''pending''"
proof -
  have "reachable any_review ex_expired"
    unfolding ex_expired_def ex_approved_def
    by (intro reachable.sweep reachable.review ex_conn1_reachable) (simp add: any_review_def)
  moreover have "status (hd (driver_documents (committed
      (snd (review_handler no_faults 4 (ex_review ''approved'' None None) ex_admin ex_expired))))) = ''approved''"
    by (simp add: ex_expired_eval ex_review_def ex_admin_def review_defs monad_defs)
  moreover have "status (hd (driver_documents (committed
      (snd (review_handler no_faults 4 (ex_review ''pending'' None None) ex_admin ex_approved))))) = ''pending''"
    by (simp add: ex_approved_eval ex_review_def ex_admin_def review_defs monad_defs)
  ultimately show ?thesis by (simp add: ex_expired_eval ex_approved_eval)
qed

text \<open>
  Claim C6 at a failing input: d1 was approved by admin1 at time 2; admin2 sets it back to
  pending at time 4. The review timestamp keeps its value, the reviewer identity does not.
\<close>

theorem verified_by_overwritten_on_pending:
  "verified_by (hd (driver_documents (committed ex_approved))) = Some ''admin1'' \<and>
   verified_at (hd (driver_documents (committed ex_approved))) = Some 2 \<and>
   fst (review_handler no_faults 4 (ex_review ''pending'' None None) ex_admin2 ex_approved)
     = Inr \<lparr>statusCode = 200, resp_body = Reviewed
         \<lparr>r_id = ''d1'', r_driver_id = ''u1'', r_document_type = ''license'', r_status = ''pending'',
          r_verified_at = Some 2, r_rejection_reason = None, r_notes = None,
          r_created_at = 1, r_updated_at = 4\<rparr> None\<rparr> \<and>
   verified_by (hd (driver_documents (committed
      (snd (review_handler no_faults 4 (ex_review ''pending'' None None) ex_admin2 ex_approved))))) = Some ''admin2'' \<and>
   verified_at (hd (driver_documents (committed
      (snd (review_handler no_faults 4 (ex_review ''pending'' None None) ex_admin2 ex_approved))))) = Some 2"
  by (simp add: ex_approved_eval ex_review_def ex_admin2_def review_defs monad_defs)

section \<open>Recomputation of the aggregate\<close>

lemma same_aggregate_column:
  "list_all2 same_aggregate (driver_profiles s)
     (driver_profiles (snd (sql_update_profile_column now column did driverId s)))"
  by (simp add: sql_update_profile_column_def list_all2_map2 list_all2_same same_aggregate_def
        set_profile_column_def)

lemma profiles_update_status[simp]:
  "driver_profiles (snd (sql_update_document_status now rd did s)) = driver_profiles s"
  by (simp add: sql_update_document_status_def)

lemma review_recompute_no_write:
  assumes "tx c = None" and "handleReviewDocument fails now event usr c = (Inr r, c')"
    and "statusCode r = 200"
    and "resp_body r = Reviewed document (Some verificationStatus)"
    and "\<not> allDocumentsApproved verificationStatus"
  shows "list_all2 same_aggregate (driver_profiles (committed c)) (driver_profiles (committed c')) \<and>
         \<not> profileUpdated verificationStatus \<and> profileStatus verificationStatus = None \<and>
         missingDocuments verificationStatus \<noteq> None"
proof -
  from review_success[OF assms(1,2,3)] obtain did st document' where
    rest: "if st = ''approved''
            then \<exists>c2 verificationStatus c3.
                   tx c2 \<noteq> None \<and> committed c2 = committed c \<and>
                   visible c2 =
                     (let s1 = snd (sql_update_document_status now (review_data st (body event) usr) did
                                (committed c))
                      in case columnMap (r_document_type document') of
                           None \<Rightarrow> s1
                         | Some column \<Rightarrow>
                             snd (sql_update_profile_column now column did (r_driver_id document') s1)) \<and>
                   checkAllDocumentsApproved fails now (r_driver_id document') c2
                     = (Inr verificationStatus, c3) \<and>
                   committed c' = visible c3 \<and>
                   resp_body r = Reviewed document' (Some verificationStatus)
            else committed c' = snd (sql_update_document_status now (review_data st (body event) usr) did
                                 (committed c)) \<and>
                 resp_body r = Reviewed document' None"
    by blast
  from rest assms(4) have st: "st = ''approved''" by (auto split: if_splits)
  with rest assms(4) obtain c2 c3 where
    v2: "visible c2 =
                     (let s1 = snd (sql_update_document_status now (review_data st (body event) usr) did
                                (committed c))
                      in case columnMap (r_document_type document') of
                           None \<Rightarrow> s1
                         | Some column \<Rightarrow>
                             snd (sql_update_profile_column now column did (r_driver_id document') s1))"
    and k: "checkAllDocumentsApproved fails now (r_driver_id document') c2 = (Inr verificationStatus, c3)"
    and fin: "committed c' = visible c3" by auto
  from check_Inr[OF k] assms(5)
  have v3: "visible c3 = visible c2" and out: "\<not> profileUpdated verificationStatus"
    "profileStatus verificationStatus = None" "missingDocuments verificationStatus \<noteq> None"
    by (simp_all split: if_splits)
  have "list_all2 same_aggregate (driver_profiles (committed c)) (driver_profiles (visible c2))"
  proof (cases "columnMap (r_document_type document')")
    case None
    with v2 show ?thesis by (simp add: Let_def list_all2_same same_aggregate_def)
  next
    case (Some column)
    with v2 same_aggregate_column[of "snd (sql_update_document_status now (review_data st (body event) usr) did
                                (committed c))" now column did "r_driver_id document'"]
    show ?thesis by (simp add: Let_def)
  qed
  with fin v3 out show ?thesis by simp
qed

lemma select_approved_missing:
  "filter (\<lambda>doc. doc \<notin> set (fst (sql_select_approved driverId s))) requiredDocs =
   filter (\<lambda>t. \<not> (\<exists>d \<in> set (driver_documents s).
                      driver_id d = driverId \<and> document_type d = t \<and> status d = ''approved''))
     requiredDocs"
  by (rule filter_cong) (auto simp: sql_select_approved_def)

lemma check_missing:
  assumes "checkAllDocumentsApproved fails now driverId c = (Inr vs, c')"
    and "\<not> allDocumentsApproved vs"
  shows "missingDocuments vs =
           Some (filter (\<lambda>t. \<not> (\<exists>d \<in> set (driver_documents (visible c')).
                      driver_id d = driverId \<and> document_type d = t \<and> status d = ''approved''))
                   requiredDocs)"
  using check_Inr[OF assms(1)] assms(2) select_approved_missing[of driverId "visible c"]
  by (simp split: if_splits)

lemma review_recompute_missing:
  assumes "tx c = None" and "handleReviewDocument fails now event usr c = (Inr r, c')"
    and "statusCode r = 200"
    and "resp_body r = Reviewed document (Some verificationStatus)"
    and "\<not> allDocumentsApproved verificationStatus"
  shows "missingDocuments verificationStatus =
           Some (filter (\<lambda>t. \<not> (\<exists>d \<in> set (driver_documents (committed c')).
                      driver_id d = r_driver_id document \<and> document_type d = t \<and>
                      status d = ''approved''))
                   requiredDocs)"
proof -
  from review_success[OF assms(1,2,3)] obtain did st document' where
    rest: "if st = ''approved''
            then \<exists>c2 verificationStatus c3.
                   tx c2 \<noteq> None \<and> committed c2 = committed c \<and>
                   visible c2 =
                     (let s1 = snd (sql_update_document_status now (review_data st (body event) usr) did
                                (committed c))
                      in case columnMap (r_document_type document') of
                           None \<Rightarrow> s1
                         | Some column \<Rightarrow>
                             snd (sql_update_profile_column now column did (r_driver_id document') s1)) \<and>
                   checkAllDocumentsApproved fails now (r_driver_id document') c2
                     = (Inr verificationStatus, c3) \<and>
                   committed c' = visible c3 \<and>
                   resp_body r = Reviewed document' (Some verificationStatus)
            else committed c' = snd (sql_update_document_status now (review_data st (body event) usr) did
                                 (committed c)) \<and>
                 resp_body r = Reviewed document' None"
    by blast
  from rest assms(4) have st: "st = ''approved''" by (auto split: if_splits)
  with rest assms(4) obtain c2 c3 where
    k: "checkAllDocumentsApproved fails now (r_driver_id document) c2 = (Inr verificationStatus, c3)"
    and fin: "committed c' = visible c3" by auto
  from check_missing[OF k assms(5)] fin show ?thesis by simp
qed

text \<open>
  Claim C3, as amended. When the recomputation that a review call triggers (it runs only
  for status approved) finds the required set not fully approved, it writes nothing to the
  aggregate: every profile row keeps its documents_complete, documents_verified_at and
  status. The response reports profileUpdated false and, as missing, exactly the required
  types for which the owning driver has no approved document after the review.
\<close>

theorem review_recompute_incomplete:
  assumes "tx c = None" and "handleReviewDocument fails now event usr c = (Inr r, c')"
    and "statusCode r = 200"
    and "resp_body r = Reviewed document (Some verificationStatus)"
    and "\<not> allDocumentsApproved verificationStatus"
  shows "list_all2 same_aggregate (driver_profiles (committed c)) (driver_profiles (committed c')) \<and>
         \<not> profileUpdated verificationStatus \<and> profileStatus verificationStatus = None \<and>
         missingDocuments verificationStatus =
           Some (filter (\<lambda>t. \<not> (\<exists>d \<in> set (driver_documents (committed c')).
                      driver_id d = r_driver_id document \<and> document_type d = t \<and>
                      status d = ''approved''))
                   requiredDocs)"
  using review_recompute_no_write[OF assms] review_recompute_missing[OF assms] by simp

lemma ex_stale_run:
  "handleReviewDocument no_faults 5 (ex_review ''approved'' None None) ex_admin ex_stale =
     (Inr \<lparr>statusCode = 200, resp_body = Reviewed
         \<lparr>r_id = ''d1'', r_driver_id = ''u1'', r_document_type = ''inspection'', r_status = ''approved'',
          r_verified_at = Some 5, r_rejection_reason = None, r_notes = None,
          r_created_at = 1, r_updated_at = 5\<rparr>
         (Some \<lparr>allDocumentsApproved = False, profileUpdated = False, profileStatus = None,
                missingDocuments = Some [''license'', ''insurance'', ''registration'', ''profile_photo'']\<rparr>)\<rparr>,
      snd (handleReviewDocument no_faults 5 (ex_review ''approved'' None None) ex_admin ex_stale))"
  by (simp add: ex_stale_def ex_doc_def ex_profile_def ex_review_def ex_admin_def review_defs monad_defs)

text \<open>
  Witness for C3: driver u1 is stored complete and active while the license is pending;
  approving the inspection d1 runs the recomputation and leaves the profile as stored.
\<close>

theorem review_recompute_incomplete_witness:
  "tx ex_stale = None \<and>
   documents_complete (hd (driver_profiles (committed ex_stale))) \<and>
   profile_status (hd (driver_profiles (committed ex_stale))) = ''active'' \<and>
   documents_complete (hd (driver_profiles (committed
     (snd (handleReviewDocument no_faults 5 (ex_review ''approved'' None None) ex_admin ex_stale))))) \<and>
   profile_status (hd (driver_profiles (committed
     (snd (handleReviewDocument no_faults 5 (ex_review ''approved'' None None) ex_admin ex_stale))))) = ''active''"
proof -
  have t: "tx ex_stale = None" by (simp add: ex_stale_def)
  obtain p where p: "driver_profiles (committed ex_stale) = [p]" "documents_complete p"
     "profile_status p = ''active''"
    by (simp add: ex_stale_def ex_profile_def)
  from review_recompute_incomplete[OF t ex_stale_run]
  have "list_all2 same_aggregate [p] (driver_profiles (committed
     (snd (handleReviewDocument no_faults 5 (ex_review ''approved'' None None) ex_admin ex_stale))))"
    by (simp add: p(1))
  from list_all2_singleton_hd[OF this] p t show ?thesis by (simp add: same_aggregate_def)
qed

text \<open>
  Counterexample to C3 as stated: in the same situation the stored aggregate says
  complete, the recomputation finds four types missing, and the profile is still complete
  and active afterwards.
\<close>

theorem review_no_demotion_counterexample:
  "documents_complete (hd (driver_profiles (committed ex_stale))) \<and>
   fst (review_handler no_faults 5 (ex_review ''approved'' None None) ex_admin ex_stale) =
     Inr \<lparr>statusCode = 200, resp_body = Reviewed
         \<lparr>r_id = ''d1'', r_driver_id = ''u1'', r_document_type = ''inspection'', r_status = ''approved'',
          r_verified_at = Some 5, r_rejection_reason = None, r_notes = None,
          r_created_at = 1, r_updated_at = 5\<rparr>
         (Some \<lparr>allDocumentsApproved = False, profileUpdated = False, profileStatus = None,
                missingDocuments = Some [''license'', ''insurance'', ''registration'', ''profile_photo'']\<rparr>)\<rparr> \<and>
   documents_complete (hd (driver_profiles (committed
     (snd (review_handler no_faults 5 (ex_review ''approved'' None None) ex_admin ex_stale))))) \<and>
   profile_status (hd (driver_profiles (committed
     (snd (review_handler no_faults 5 (ex_review ''approved'' None None) ex_admin ex_stale))))) = ''active''"
  by (simp add: ex_stale_def ex_doc_def ex_profile_def ex_review_def ex_admin_def review_defs monad_defs)

lemma select_approved_docs:
  "driver_documents s' = driver_documents s \<Longrightarrow>
     fst (sql_select_approved driverId s') = fst (sql_select_approved driverId s)"
  by (simp add: sql_select_approved_def)

lemma set_complete_twice_verdict:
  "same_verdict (set_complete t1 p) (set_complete t2 (set_complete t1 p))"
  by (simp add: same_verdict_def set_complete_def)

lemma set_complete_user[simp]: "user_id (set_complete t p) = user_id p"
  by (simp add: set_complete_def)

lemma complete_twice_verdict:
  "list_all2 same_verdict
     (driver_profiles (snd (sql_update_profile_complete t1 driverId s)))
     (driver_profiles (snd (sql_update_profile_complete t2 driverId
        (snd (sql_update_profile_complete t1 driverId s)))))"
  by (simp add: sql_update_profile_complete_def list_all2_map2 list_all2_map1 list_all2_same
        set_complete_twice_verdict)
     (simp add: same_verdict_def)

lemma set_complete_idem: "set_complete t (set_complete t p) = set_complete t p"
  by (simp add: set_complete_def)

lemma complete_idem:
  "sql_update_profile_complete t driverId (snd (sql_update_profile_complete t driverId s))
     = sql_update_profile_complete t driverId s"
  by (simp add: sql_update_profile_complete_def filter_map o_def set_complete_idem
        cong: if_cong)

lemma recompute_twice_core:
  assumes r1: "checkAllDocumentsApproved fails1 t1 driverId c = (Inr v1, c1)"
    and r2: "checkAllDocumentsApproved fails2 t2 driverId c1 = (Inr v2, c2)"
  shows "allDocumentsApproved v2 = allDocumentsApproved v1 \<and>
         profileUpdated v2 = profileUpdated v1 \<and>
         missingDocuments v2 = missingDocuments v1 \<and>
         driver_documents (visible c2) = driver_documents (visible c1) \<and>
         list_all2 same_verdict (driver_profiles (visible c1)) (driver_profiles (visible c2)) \<and>
         (\<not> allDocumentsApproved v1 \<longrightarrow> visible c2 = visible c1 \<and> v2 = v1) \<and>
         (allDocumentsApproved v1 \<longrightarrow>
            visible c2 = snd (sql_update_profile_complete t2 driverId (visible c1)) \<and>
            profileStatus v2 = first_row (fst (sql_update_profile_complete t2 driverId (visible c1)))) \<and>
         (t2 = t1 \<longrightarrow> visible c2 = visible c1 \<and> v2 = v1)"
proof -
  note k1 = check_Inr[OF r1] and k2 = check_Inr[OF r2]
  have docs1: "driver_documents (visible c1) = driver_documents (visible c)"
    by (rule check_docs[OF r1])
  have sel: "fst (sql_select_approved driverId (visible c1)) = fst (sql_select_approved driverId (visible c))"
    by (rule select_approved_docs[OF docs1])
  from k1 k2 sel have all: "allDocumentsApproved v2 = allDocumentsApproved v1" by simp
  show ?thesis
  proof (cases "allDocumentsApproved v1")
    case False
    with all have f2: "\<not> allDocumentsApproved v2" by simp
    from k1 False have a: "\<not> profileUpdated v1" "profileStatus v1 = None"
      "missingDocuments v1 = Some (filter (\<lambda>doc. doc \<notin> set (fst (sql_select_approved driverId (visible c)))) requiredDocs)"
      by simp_all
    from k2 f2 have b: "visible c2 = visible c1" "\<not> profileUpdated v2" "profileStatus v2 = None"
      "missingDocuments v2 = Some (filter (\<lambda>doc. doc \<notin> set (fst (sql_select_approved driverId (visible c1)))) requiredDocs)"
      by simp_all
    from a b sel False f2 have "v2 = v1" by (intro verification_status.equality) simp_all
    with b False all show ?thesis by (simp add: list_all2_same same_verdict_def)
  next
    case True
    with all have t2: "allDocumentsApproved v2" by simp
    from k1 True have a: "visible c1 = snd (sql_update_profile_complete t1 driverId (visible c))"
      "profileUpdated v1" "missingDocuments v1 = None"
      "profileStatus v1 = first_row (fst (sql_update_profile_complete t1 driverId (visible c)))"
      by simp_all
    from k2 t2 have b: "visible c2 = snd (sql_update_profile_complete t2 driverId (visible c1))"
      "profileUpdated v2" "missingDocuments v2 = None"
      "profileStatus v2 = first_row (fst (sql_update_profile_complete t2 driverId (visible c1)))"
      by simp_all
    have verdict: "list_all2 same_verdict (driver_profiles (visible c1)) (driver_profiles (visible c2))"
      unfolding b(1) a(1) by (rule complete_twice_verdict)
    have same: "visible c2 = visible c1 \<and> v2 = v1" if "t2 = t1"
    proof -
      from that a b complete_idem[of t1 driverId "visible c"]
      have "visible c2 = visible c1" "profileStatus v2 = profileStatus v1" by simp_all
      moreover from this a b True t2 have "v2 = v1" by (intro verification_status.equality) simp_all
      ultimately show ?thesis by simp
    qed
    from True all a b verdict same show ?thesis by simp
  qed
qed

lemma complete_no_row:
  assumes "\<forall>p \<in> set (driver_profiles s). user_id p \<noteq> driverId"
  shows "sql_update_profile_complete t driverId s = ([], s)"
proof -
  from assms have "filter (\<lambda>p. user_id p = driverId) (driver_profiles s) = []"
    by (simp add: filter_empty_conv)
  moreover from assms have "map (\<lambda>p. if user_id p = driverId then set_complete t p else p)
      (driver_profiles s) = driver_profiles s"
    by (simp add: map_idI)
  ultimately show ?thesis by (simp add: sql_update_profile_complete_def)
qed

lemma complete_stamps:
  assumes "p \<in> set (driver_profiles (snd (sql_update_profile_complete t driverId s)))"
    and "user_id p = driverId"
  shows "documents_complete p \<and> documents_verified_at p = Some t \<and> profile_updated_at p = t"
proof -
  from assms(1) obtain q where q: "q \<in> set (driver_profiles s)"
    and p: "p = (if user_id q = driverId then set_complete t q else q)"
    by (auto simp: sql_update_profile_complete_def)
  show ?thesis
  proof (cases "user_id q = driverId")
    case True
    with p show ?thesis by (simp add: set_complete_def)
  next
    case False
    with p assms(2) show ?thesis by simp
  qed
qed

lemma complete_rows:
  "fst (sql_update_profile_complete t2 driverId (snd (sql_update_profile_complete t1 driverId s))) =
     map (\<lambda>p. returning_complete (set_complete t2 (set_complete t1 p)))
       (filter (\<lambda>p. user_id p = driverId) (driver_profiles s))"
  by (simp add: sql_update_profile_complete_def filter_map o_def cong: if_cong)

lemma complete_restamp_differs:
  assumes row: "p \<in> set (driver_profiles s)" "user_id p = driverId" and t: "t2 \<noteq> t1"
  shows "snd (sql_update_profile_complete t2 driverId (snd (sql_update_profile_complete t1 driverId s)))
           \<noteq> snd (sql_update_profile_complete t1 driverId s) \<and>
         first_row (fst (sql_update_profile_complete t2 driverId
                           (snd (sql_update_profile_complete t1 driverId s))))
           \<noteq> first_row (fst (sql_update_profile_complete t1 driverId s))"
proof
  let ?s1 = "snd (sql_update_profile_complete t1 driverId s)"
  have in1: "set_complete t1 p \<in> set (driver_profiles ?s1)"
    using row by (force simp: sql_update_profile_complete_def)
  show "snd (sql_update_profile_complete t2 driverId ?s1) \<noteq> ?s1"
  proof
    assume "snd (sql_update_profile_complete t2 driverId ?s1) = ?s1"
    with in1 have "set_complete t1 p \<in> set (driver_profiles (snd (sql_update_profile_complete t2 driverId ?s1)))"
      by simp
    from complete_stamps[OF this] row(2) t show False by (simp add: set_complete_def)
  qed
  from row obtain q qs where f: "filter (\<lambda>p. user_id p = driverId) (driver_profiles s) = q # qs"
    by (cases "filter (\<lambda>p. user_id p = driverId) (driver_profiles s)") (auto simp: filter_empty_conv)
  have "first_row (fst (sql_update_profile_complete t1 driverId s)) = Some (returning_complete (set_complete t1 q))"
    by (simp add: sql_update_profile_complete_def f first_row_def)
  moreover have "first_row (fst (sql_update_profile_complete t2 driverId ?s1))
        = Some (returning_complete (set_complete t2 (set_complete t1 q)))"
    by (simp add: complete_rows f first_row_def)
  ultimately show "first_row (fst (sql_update_profile_complete t2 driverId ?s1))
           \<noteq> first_row (fst (sql_update_profile_complete t1 driverId s))"
    using t by (simp add: returning_complete_def set_complete_def)
qed

lemma iff_both: "A \<Longrightarrow> R \<Longrightarrow> A = R"
  by simp

lemma iff_neither: "\<not> A \<Longrightarrow> \<not> R \<Longrightarrow> A = R"
  by simp

text \<open>
  Claim C4, as amended. Two recomputations for the same driver in a row agree on the
  verdict (allDocumentsApproved, profileUpdated, missing types), leave the documents alone
  and leave documents_complete and the profile status of every profile as the first run
  left them. When the set is incomplete the second run writes nothing and returns the same
  output. When it is complete the second run issues the UPDATE again: every profile row of
  the driver carries the second run's timestamp in documents_verified_at and updated_at,
  and store and output of the two runs are the same exactly when both runs read the same
  timestamp or the driver has no profile row.
\<close>

theorem recompute_twice:
  assumes r1: "checkAllDocumentsApproved fails1 t1 driverId c = (Inr v1, c1)"
    and r2: "checkAllDocumentsApproved fails2 t2 driverId c1 = (Inr v2, c2)"
  shows "allDocumentsApproved v2 = allDocumentsApproved v1 \<and>
         profileUpdated v2 = profileUpdated v1 \<and>
         missingDocuments v2 = missingDocuments v1 \<and>
         driver_documents (visible c2) = driver_documents (visible c1) \<and>
         list_all2 same_verdict (driver_profiles (visible c1)) (driver_profiles (visible c2)) \<and>
         (\<not> allDocumentsApproved v1 \<longrightarrow> visible c2 = visible c1 \<and> v2 = v1) \<and>
         (allDocumentsApproved v1 \<longrightarrow>
            visible c2 = snd (sql_update_profile_complete t2 driverId (visible c1)) \<and>
            profileStatus v2 = first_row (fst (sql_update_profile_complete t2 driverId (visible c1))) \<and>
            (\<forall>p \<in> set (driver_profiles (visible c2)). user_id p = driverId \<longrightarrow>
               documents_verified_at p = Some t2 \<and> profile_updated_at p = t2) \<and>
            (visible c2 = visible c1) =
               (t2 = t1 \<or> (\<forall>p \<in> set (driver_profiles (visible c)). user_id p \<noteq> driverId)) \<and>
            (v2 = v1) =
               (t2 = t1 \<or> (\<forall>p \<in> set (driver_profiles (visible c)). user_id p \<noteq> driverId))) \<and>
         (t2 = t1 \<longrightarrow> visible c2 = visible c1 \<and> v2 = v1)"
proof -
  note core = recompute_twice_core[OF r1 r2]
  have p1: "allDocumentsApproved v2 = allDocumentsApproved v1" using core by (elim conjE)
  have p2: "profileUpdated v2 = profileUpdated v1" using core by (elim conjE)
  have p3: "missingDocuments v2 = missingDocuments v1" using core by (elim conjE)
  have p4: "driver_documents (visible c2) = driver_documents (visible c1)" using core by (elim conjE)
  have p5: "list_all2 same_verdict (driver_profiles (visible c1)) (driver_profiles (visible c2))"
    using core by (elim conjE)
  have p6: "\<not> allDocumentsApproved v1 \<longrightarrow> visible c2 = visible c1 \<and> v2 = v1"
    using core by (elim conjE)
  have p7: "allDocumentsApproved v1 \<longrightarrow>
            visible c2 = snd (sql_update_profile_complete t2 driverId (visible c1)) \<and>
            profileStatus v2 = first_row (fst (sql_update_profile_complete t2 driverId (visible c1)))"
    using core by (elim conjE)
  have same: "t2 = t1 \<longrightarrow> visible c2 = visible c1 \<and> v2 = v1" using core by (elim conjE)
  have extra: "(\<forall>p \<in> set (driver_profiles (visible c2)). user_id p = driverId \<longrightarrow>
               documents_verified_at p = Some t2 \<and> profile_updated_at p = t2) \<and>
            (visible c2 = visible c1) =
               (t2 = t1 \<or> (\<forall>p \<in> set (driver_profiles (visible c)). user_id p \<noteq> driverId)) \<and>
            (v2 = v1) =
               (t2 = t1 \<or> (\<forall>p \<in> set (driver_profiles (visible c)). user_id p \<noteq> driverId))"
    if all: "allDocumentsApproved v1"
  proof -
    from check_Inr[OF r1] all
    have a: "visible c1 = snd (sql_update_profile_complete t1 driverId (visible c))"
      "profileStatus v1 = first_row (fst (sql_update_profile_complete t1 driverId (visible c)))"
      by simp_all
    note pb = p7[THEN mp, OF all]
    note b = pb[THEN conjunct1] pb[THEN conjunct2]
    have stamps: "\<forall>p \<in> set (driver_profiles (visible c2)). user_id p = driverId \<longrightarrow>
               documents_verified_at p = Some t2 \<and> profile_updated_at p = t2"
      unfolding b(1) by (intro ballI impI) (rule complete_stamps[THEN conjunct2])
    show ?thesis
    proof (cases "\<forall>p \<in> set (driver_profiles (visible c)). user_id p \<noteq> driverId")
      case True
      from complete_no_row[OF True, of t1] a have c1: "visible c1 = visible c" "profileStatus v1 = None"
        by (simp_all add: first_row_def)
      from True c1 have "\<forall>p \<in> set (driver_profiles (visible c1)). user_id p \<noteq> driverId" by simp
      from complete_no_row[OF this, of t2] b c1
      have eq: "visible c2 = visible c1" "profileStatus v2 = profileStatus v1"
        by (simp_all add: first_row_def)
      from eq(2) p1 p2 p3 have v: "v2 = v1" by (intro verification_status.equality) simp_all
      show ?thesis
        by (intro conjI stamps iff_both[OF eq(1) disjI2[OF True]] iff_both[OF v disjI2[OF True]])
    next
      case False
      then obtain p where row: "p \<in> set (driver_profiles (visible c))" "user_id p = driverId"
        by blast
      show ?thesis
      proof (cases "t2 = t1")
        case True
        note ab = same[THEN mp, OF True]
        note eq = ab[THEN conjunct1] ab[THEN conjunct2]
        show ?thesis
          by (intro conjI stamps iff_both[OF eq(1) disjI1[OF True]] iff_both[OF eq(2) disjI1[OF True]])
      next
        case neq: False
        note d = complete_restamp_differs[OF row neq]
        have n1: "visible c2 \<noteq> visible c1"
          unfolding b(1) a(1) by (rule d[THEN conjunct1])
        have "profileStatus v2 \<noteq> profileStatus v1"
          unfolding b(2) a(2) a(1) by (rule d[THEN conjunct2])
        then have n2: "v2 \<noteq> v1" by auto
        from False neq
        have nr: "\<not> (t2 = t1 \<or> (\<forall>p \<in> set (driver_profiles (visible c)). user_id p \<noteq> driverId))"
          by simp
        show ?thesis
          by (intro conjI stamps iff_neither[OF n1 nr] iff_neither[OF n2 nr])
      qed
    qed
  qed
  have p7': "allDocumentsApproved v1 \<longrightarrow>
            visible c2 = snd (sql_update_profile_complete t2 driverId (visible c1)) \<and>
            profileStatus v2 = first_row (fst (sql_update_profile_complete t2 driverId (visible c1))) \<and>
            (\<forall>p \<in> set (driver_profiles (visible c2)). user_id p = driverId \<longrightarrow>
               documents_verified_at p = Some t2 \<and> profile_updated_at p = t2) \<and>
            (visible c2 = visible c1) =
               (t2 = t1 \<or> (\<forall>p \<in> set (driver_profiles (visible c)). user_id p \<noteq> driverId)) \<and>
            (v2 = v1) =
               (t2 = t1 \<or> (\<forall>p \<in> set (driver_profiles (visible c)). user_id p \<noteq> driverId))"
  proof (rule impI)
    assume all: "allDocumentsApproved v1"
    note pb = p7[THEN mp, OF all]
    note ex = extra[OF all]
    show "visible c2 = snd (sql_update_profile_complete t2 driverId (visible c1)) \<and>
            profileStatus v2 = first_row (fst (sql_update_profile_complete t2 driverId (visible c1))) \<and>
            (\<forall>p \<in> set (driver_profiles (visible c2)). user_id p = driverId \<longrightarrow>
               documents_verified_at p = Some t2 \<and> profile_updated_at p = t2) \<and>
            (visible c2 = visible c1) =
               (t2 = t1 \<or> (\<forall>p \<in> set (driver_profiles (visible c)). user_id p \<noteq> driverId)) \<and>
            (v2 = v1) =
               (t2 = t1 \<or> (\<forall>p \<in> set (driver_profiles (visible c)). user_id p \<noteq> driverId))"
      by (rule conjI[OF pb[THEN conjunct1] conjI[OF pb[THEN conjunct2] ex]])
  qed
  from p1 p2 p3 p4 p5 p6 p7' same show ?thesis by (intro conjI)
qed

lemma ex_recompute_once:
  "checkAllDocumentsApproved no_faults 10 ''u1'' ex_all_approved =
     (Inr \<lparr>allDocumentsApproved = True, profileUpdated = True,
           profileStatus = Some (True, Some 10, ''active''), missingDocuments = None\<rparr>,
      snd (checkAllDocumentsApproved no_faults 10 ''u1'' ex_all_approved))"
  by (simp add: ex_all_approved_def ex_doc_def ex_profile_def review_defs monad_defs)

lemma ex_recompute_once_profile:
  "driver_profiles (committed (snd (checkAllDocumentsApproved no_faults 10 ''u1'' ex_all_approved)))
     = [(ex_profile ''u1'' True (Some 10) ''active'')\<lparr>profile_updated_at := 10\<rparr>] \<and>
   driver_documents (committed (snd (checkAllDocumentsApproved no_faults 10 ''u1'' ex_all_approved)))
     = driver_documents (committed ex_all_approved) \<and>
   tx (snd (checkAllDocumentsApproved no_faults 10 ''u1'' ex_all_approved)) = None"
  by (simp add: ex_all_approved_def ex_doc_def ex_profile_def review_defs monad_defs)

lemma ex_recompute_again:
  "checkAllDocumentsApproved no_faults 20 ''u1''
       (snd (checkAllDocumentsApproved no_faults 10 ''u1'' ex_all_approved)) =
     (Inr \<lparr>allDocumentsApproved = True, profileUpdated = True,
           profileStatus = Some (True, Some 20, ''active''), missingDocuments = None\<rparr>,
      snd (checkAllDocumentsApproved no_faults 20 ''u1''
             (snd (checkAllDocumentsApproved no_faults 10 ''u1'' ex_all_approved))))"
  by (simp add: ex_all_approved_def ex_doc_def ex_profile_def review_defs monad_defs)

lemma ex_recompute_again_profile:
  "driver_profiles (committed (snd (checkAllDocumentsApproved no_faults 20 ''u1''
       (snd (checkAllDocumentsApproved no_faults 10 ''u1'' ex_all_approved)))))
     = [(ex_profile ''u1'' True (Some 20) ''active'')\<lparr>profile_updated_at := 20\<rparr>]"
  by (simp add: ex_all_approved_def ex_doc_def ex_profile_def review_defs monad_defs)

text \<open>
  Witness for C4: driver u1 with the four required documents approved, recomputed at
  time 10 and again at time 20.
\<close>

theorem recompute_twice_witness:
  "fst (checkAllDocumentsApproved no_faults 10 ''u1'' ex_all_approved) =
     Inr \<lparr>allDocumentsApproved = True, profileUpdated = True,
          profileStatus = Some (True, Some 10, ''active''), missingDocuments = None\<rparr> \<and>
   fst (checkAllDocumentsApproved no_faults 20 ''u1''
          (snd (checkAllDocumentsApproved no_faults 10 ''u1'' ex_all_approved))) =
     Inr \<lparr>allDocumentsApproved = True, profileUpdated = True,
          profileStatus = Some (True, Some 20, ''active''), missingDocuments = None\<rparr> \<and>
   list_all2 same_verdict
     (driver_profiles (visible (snd (checkAllDocumentsApproved no_faults 10 ''u1'' ex_all_approved))))
     (driver_profiles (visible (snd (checkAllDocumentsApproved no_faults 20 ''u1''
          (snd (checkAllDocumentsApproved no_faults 10 ''u1'' ex_all_approved))))))"
proof -
  have a: "fst (checkAllDocumentsApproved no_faults 10 ''u1'' ex_all_approved) =
     Inr \<lparr>allDocumentsApproved = True, profileUpdated = True,
          profileStatus = Some (True, Some 10, ''active''), missingDocuments = None\<rparr>"
    by (subst ex_recompute_once) simp
  have b: "fst (checkAllDocumentsApproved no_faults 20 ''u1''
          (snd (checkAllDocumentsApproved no_faults 10 ''u1'' ex_all_approved))) =
     Inr \<lparr>allDocumentsApproved = True, profileUpdated = True,
          profileStatus = Some (True, Some 20, ''active''), missingDocuments = None\<rparr>"
    by (subst ex_recompute_again) simp
  from recompute_twice[OF ex_recompute_once ex_recompute_again]
  have "list_all2 same_verdict
     (driver_profiles (visible (snd (checkAllDocumentsApproved no_faults 10 ''u1'' ex_all_approved))))
     (driver_profiles (visible (snd (checkAllDocumentsApproved no_faults 20 ''u1''
          (snd (checkAllDocumentsApproved no_faults 10 ''u1'' ex_all_approved))))))"
    by (elim conjE)
  with a b show ?thesis by (intro conjI)
qed

text \<open>
  Counterexample to C4 as stated: with no change to the documents, the second run
  re-stamps documents_verified_at from 10 to 20 and returns a different output.
\<close>

theorem recompute_restamps_counterexample:
  "documents_verified_at (hd (driver_profiles (committed
      (snd (checkAllDocumentsApproved no_faults 10 ''u1'' ex_all_approved))))) = Some 10 \<and>
   documents_verified_at (hd (driver_profiles (committed
      (snd (checkAllDocumentsApproved no_faults 20 ''u1''
         (snd (checkAllDocumentsApproved no_faults 10 ''u1'' ex_all_approved))))))) = Some 20 \<and>
   driver_documents (committed (snd (checkAllDocumentsApproved no_faults 10 ''u1'' ex_all_approved)))
     = driver_documents (committed ex_all_approved) \<and>
   fst (checkAllDocumentsApproved no_faults 10 ''u1'' ex_all_approved) \<noteq>
   fst (checkAllDocumentsApproved no_faults 20 ''u1''
          (snd (checkAllDocumentsApproved no_faults 10 ''u1'' ex_all_approved)))"
proof -
  have a: "fst (checkAllDocumentsApproved no_faults 10 ''u1'' ex_all_approved) =
     Inr \<lparr>allDocumentsApproved = True, profileUpdated = True,
          profileStatus = Some (True, Some 10, ''active''), missingDocuments = None\<rparr>"
    by (subst ex_recompute_once) simp
  have b: "fst (checkAllDocumentsApproved no_faults 20 ''u1''
          (snd (checkAllDocumentsApproved no_faults 10 ''u1'' ex_all_approved))) =
     Inr \<lparr>allDocumentsApproved = True, profileUpdated = True,
          profileStatus = Some (True, Some 20, ''active''), missingDocuments = None\<rparr>"
    by (subst ex_recompute_again) simp
  show ?thesis
    unfolding a b using ex_recompute_once_profile ex_recompute_again_profile
    by (simp add: ex_profile_def)
qed

section \<open>The expiry sweep\<close>

























































end
